theory Spec2Isabelle
  imports Complex_Main "HOL-Library.Word"
begin

section \<open>Numbers and shared data types\<close>

text \<open>
  The TypeScript sources compute with JavaScript numbers. A number is modelled as
  the real it denotes, and a list of reals stands for a \<^verbatim>\<open>number[]\<close> or a
  \<^verbatim>\<open>Float32Array\<close>. Counters and array lengths are naturals, loop offsets are
  integers, byte arrays are lists of 8-bit words. An exception thrown by the source
  is the \<open>Inl\<close> branch of a sum type.

  The aggregator and the tamper analyzer are written first in exact real arithmetic.
  Section \<open>Rounding\<close> defines the rounding of doubles and singles; the aggregator is
  then written once more with every arithmetic result rounded, and the fingerprint
  extractor is written with rounding throughout. Infinities and NaN are not numbers
  of the model: a division by zero, which gives one of them in the source, gives 0
  here. No statement below depends on the value of such a division.
\<close>

type_synonym bytes = "8 word list"

datatype proximity_level = Near | Medium | Far

datatype consensus_level = ConsensusHigh | ConsensusMedium | ConsensusLow

record PeerReport =
  report_id :: string
  mediaItemId :: string
  peerEphemeralId :: string
  confidenceScore :: real
  signature :: bytes
  ephemeralPubKey :: bytes
  timestamp :: string
  peerAddress :: string
  proximityLevel :: proximity_level

record PeerScore =
  peerId :: string
  score :: real
  included :: bool

record ConfidenceAggregation =
  aggregatedScore :: real
  reportCount :: nat
  outlierCount :: nat
  standardDeviation :: real
  consensusLevel :: consensus_level
  peerScores :: "PeerScore list"

section \<open>verification/confidence.ts: ConfidenceAggregator\<close>

text \<open>
  The options object of \<^verbatim>\<open>aggregate\<close>: every field is optional, and the
  destructuring assignment supplies the defaults 2.0, 3 and true.
\<close>

record AggregateOptions =
  outlierThreshold :: "real option"
  minPeers :: "real option"
  verifySignatures :: "bool option"

definition no_options :: AggregateOptions where
  "no_options = \<lparr>outlierThreshold = None, minPeers = None, verifySignatures = None\<rparr>"

datatype aggregate_error = InsufficientReportsError nat real

text \<open>
  The crypto capability is a parameter. \<^verbatim>\<open>crypto.verify(message, signature, key)\<close>
  answers true or false, or throws; a throw is \<open>None\<close>. The message is the JSON text of
  the three fields picked by \<^verbatim>\<open>serializeReportForSigning\<close>; the encoding into bytes
  is left to the capability, which receives the three fields.
\<close>

type_synonym signed_fields = "string \<times> real \<times> string"

type_synonym crypto_verify = "signed_fields \<Rightarrow> bytes \<Rightarrow> bytes \<Rightarrow> bool option"

definition serializeReportForSigning :: "PeerReport \<Rightarrow> signed_fields" where
  "serializeReportForSigning report =
     (mediaItemId report, confidenceScore report, timestamp report)"

text \<open>
  \<^verbatim>\<open>verifyReportSignatures\<close>: a report is pushed onto the result when the
  capability answers true; a false answer is logged, a throw is caught and logged,
  and in both cases the loop goes on with the next report.
\<close>

fun verifyReportSignatures :: "crypto_verify \<Rightarrow> PeerReport list \<Rightarrow> PeerReport list" where
  "verifyReportSignatures verify [] = []"
| "verifyReportSignatures verify (report # reports) =
     (case verify (serializeReportForSigning report) (signature report) (ephemeralPubKey report) of
        Some True \<Rightarrow> report # verifyReportSignatures verify reports
      | Some False \<Rightarrow> verifyReportSignatures verify reports
      | None \<Rightarrow> verifyReportSignatures verify reports)"

definition computeMean :: "real list \<Rightarrow> real" where
  "computeMean values =
     (if length values = 0 then 0
      else foldl (\<lambda>acc val. acc + val) 0 values / real (length values))"

definition computeStdDev :: "real list \<Rightarrow> real \<Rightarrow> real" where
  "computeStdDev values mean =
     (if length values = 0 then 0
      else sqrt (foldl (\<lambda>acc val. acc + (val - mean)\<^sup>2) 0 values / real (length values)))"

definition detectOutliers :: "real list \<Rightarrow> real \<Rightarrow> real \<Rightarrow> real \<Rightarrow> bool list" where
  "detectOutliers values mean stdDev threshold =
     map (\<lambda>val. let zScore = (if stdDev > 0 then \<bar>(val - mean) / stdDev\<bar> else 0)
                in zScore > threshold) values"

definition assessConsensus :: "real list \<Rightarrow> real \<Rightarrow> consensus_level" where
  "assessConsensus scores aggregated =
     (if length scores = 0 then ConsensusLow
      else let mean = computeMean scores;
               stdDev = computeStdDev scores mean;
               cv = (if mean > 0 then stdDev / mean else 1)
           in if cv < 0.1 \<and> aggregated \<ge> 0.7 then ConsensusHigh
              else if cv < 0.3 \<and> aggregated \<ge> 0.5 then ConsensusMedium
              else ConsensusLow)"

text \<open>
  \<^verbatim>\<open>xs.filter((_, i) => !outlierMask[i])\<close>: the elements whose mask entry is false.
  The mask is the image of the scores, so it is as long as the list it filters.
\<close>

definition keep_unmasked :: "'a list \<Rightarrow> bool list \<Rightarrow> 'a list" where
  "keep_unmasked xs outlierMask =
     map fst (filter (\<lambda>(x, isOutlier). \<not> isOutlier) (zip xs outlierMask))"

definition aggregate ::
  "crypto_verify \<Rightarrow> PeerReport list \<Rightarrow> AggregateOptions \<Rightarrow> aggregate_error + ConfidenceAggregation"
where
  "aggregate verify reports0 options =
     (let threshold = (case outlierThreshold options of None \<Rightarrow> 2.0 | Some t \<Rightarrow> t);
          minP = (case minPeers options of None \<Rightarrow> 3 | Some m \<Rightarrow> m);
          doVerify = (case verifySignatures options of None \<Rightarrow> True | Some b \<Rightarrow> b)
      in if real (length reports0) < minP
         then Inl (InsufficientReportsError (length reports0) minP)
         else
           let reports = (if doVerify then verifyReportSignatures verify reports0 else reports0);
               scores = map confidenceScore reports;
               mean = computeMean scores;
               stdDev = computeStdDev scores mean;
               outlierMask = detectOutliers scores mean stdDev threshold;
               outliers = length (filter (\<lambda>isOutlier. isOutlier) outlierMask);
               filteredScores = keep_unmasked scores outlierMask;
               filteredReports = keep_unmasked reports outlierMask;
               aggregated = computeMean filteredScores;
               consensus = assessConsensus filteredScores aggregated;
               details = map (\<lambda>(report, isOutlier).
                                \<lparr>peerId = peerEphemeralId report,
                                 score = confidenceScore report,
                                 included = (\<not> isOutlier)\<rparr>) (zip reports outlierMask)
           in Inr \<lparr>aggregatedScore = aggregated,
                   reportCount = length filteredReports,
                   outlierCount = outliers,
                   standardDeviation = stdDev,
                   consensusLevel = consensus,
                   peerScores = details\<rparr>)"

section \<open>verification/confidence.ts: TamperDetectionAnalyzer\<close>





section \<open>Rounding\<close>

text \<open>
  A JavaScript number is an IEEE 754 double and an element of a \<^verbatim>\<open>Float32Array\<close> is
  an IEEE 754 single. \<open>to_precision p x\<close> is the real \<open>x\<close> rounded to the nearest
  number with a significand of \<open>p\<close> bits, ties to the even significand: \<open>binade x\<close>
  is the exponent of \<open>x\<close>, \<open>ulp p x\<close> the distance between neighbouring \<open>p\<close>-bit
  numbers around \<open>x\<close>. The exponent is unbounded: overflow to infinity and
  subnormal numbers are not modelled.
\<close>

definition binade :: "real \<Rightarrow> int" where
  "binade x = \<lfloor>log 2 \<bar>x\<bar>\<rfloor>"

definition round_half_even :: "real \<Rightarrow> int" where
  "round_half_even q =
     (if q - real_of_int \<lfloor>q\<rfloor> < 1 / 2 then \<lfloor>q\<rfloor>
      else if q - real_of_int \<lfloor>q\<rfloor> > 1 / 2 then \<lfloor>q\<rfloor> + 1
      else if even \<lfloor>q\<rfloor> then \<lfloor>q\<rfloor> else \<lfloor>q\<rfloor> + 1)"

definition ulp :: "nat \<Rightarrow> real \<Rightarrow> real" where
  "ulp p x = 2 powr real_of_int (binade x - (int p - 1))"

definition to_precision :: "nat \<Rightarrow> real \<Rightarrow> real" where
  "to_precision p x =
     (if x = 0 then 0 else real_of_int (round_half_even (x / ulp p x)) * ulp p x)"

definition double :: "real \<Rightarrow> real" where
  "double x = to_precision 53 x"

definition float32 :: "real \<Rightarrow> real" where
  "float32 x = to_precision 24 x"

section \<open>verification/confidence.ts: ConfidenceAggregator in floating point\<close>

text \<open>
  The functions of the aggregator once more, with the rounding \<open>fl\<close> applied to the
  result of every addition, subtraction, division, square and square root, in the
  order in which the source evaluates them, and to the decimal literals that are
  not doubles. With \<open>double\<close> for \<open>fl\<close> this is what the source computes; with the
  identity for \<open>fl\<close> these are the functions of the section above (lemma
  \<open>aggregate_exact_instance\<close>).
\<close>

definition computeMean_fl :: "(real \<Rightarrow> real) \<Rightarrow> real list \<Rightarrow> real" where
  "computeMean_fl fl values =
     (if length values = 0 then 0
      else fl (foldl (\<lambda>acc val. fl (acc + val)) 0 values / real (length values)))"

definition computeStdDev_fl :: "(real \<Rightarrow> real) \<Rightarrow> real list \<Rightarrow> real \<Rightarrow> real" where
  "computeStdDev_fl fl values mean =
     (if length values = 0 then 0
      else fl (sqrt (fl (foldl (\<lambda>acc val. fl (acc + fl ((fl (val - mean))\<^sup>2))) 0 values
                         / real (length values)))))"

definition detectOutliers_fl :: "(real \<Rightarrow> real) \<Rightarrow> real list \<Rightarrow> real \<Rightarrow> real \<Rightarrow> real \<Rightarrow> bool list" where
  "detectOutliers_fl fl values mean stdDev threshold =
     map (\<lambda>val. let zScore = (if stdDev > 0 then \<bar>fl (fl (val - mean) / stdDev)\<bar> else 0)
                in zScore > threshold) values"

definition assessConsensus_fl :: "(real \<Rightarrow> real) \<Rightarrow> real list \<Rightarrow> real \<Rightarrow> consensus_level" where
  "assessConsensus_fl fl scores aggregated =
     (if length scores = 0 then ConsensusLow
      else let mean = computeMean_fl fl scores;
               stdDev = computeStdDev_fl fl scores mean;
               cv = (if mean > 0 then fl (stdDev / mean) else 1)
           in if cv < fl 0.1 \<and> aggregated \<ge> fl 0.7 then ConsensusHigh
              else if cv < fl 0.3 \<and> aggregated \<ge> fl 0.5 then ConsensusMedium
              else ConsensusLow)"

definition aggregate_fl ::
  "(real \<Rightarrow> real) \<Rightarrow> crypto_verify \<Rightarrow> PeerReport list \<Rightarrow> AggregateOptions
     \<Rightarrow> aggregate_error + ConfidenceAggregation"
where
  "aggregate_fl fl verify reports0 options =
     (let threshold = (case outlierThreshold options of None \<Rightarrow> 2.0 | Some t \<Rightarrow> t);
          minP = (case minPeers options of None \<Rightarrow> 3 | Some m \<Rightarrow> m);
          doVerify = (case verifySignatures options of None \<Rightarrow> True | Some b \<Rightarrow> b)
      in if real (length reports0) < minP
         then Inl (InsufficientReportsError (length reports0) minP)
         else
           let reports = (if doVerify then verifyReportSignatures verify reports0 else reports0);
               scores = map confidenceScore reports;
               mean = computeMean_fl fl scores;
               stdDev = computeStdDev_fl fl scores mean;
               outlierMask = detectOutliers_fl fl scores mean stdDev threshold;
               outliers = length (filter (\<lambda>isOutlier. isOutlier) outlierMask);
               filteredScores = keep_unmasked scores outlierMask;
               filteredReports = keep_unmasked reports outlierMask;
               aggregated = computeMean_fl fl filteredScores;
               consensus = assessConsensus_fl fl filteredScores aggregated;
               details = map (\<lambda>(report, isOutlier).
                                \<lparr>peerId = peerEphemeralId report,
                                 score = confidenceScore report,
                                 included = (\<not> isOutlier)\<rparr>) (zip reports outlierMask)
           in Inr \<lparr>aggregatedScore = aggregated,
                   reportCount = length filteredReports,
                   outlierCount = outliers,
                   standardDeviation = stdDev,
                   consensusLevel = consensus,
                   peerScores = details\<rparr>)"

section \<open>fingerprint/mains-hum.ts: data\<close>

record FingerprintConfig =
  sampleRate :: real
  fftWindowSize :: nat
  hopSize :: nat
  lowCutoff :: real
  highCutoff :: real
  targetFrequency :: real
  frequencyTolerance :: real
  minDuration :: real

definition DEFAULT_FINGERPRINT_CONFIG :: FingerprintConfig where
  "DEFAULT_FINGERPRINT_CONFIG =
     \<lparr>sampleRate = 44100, fftWindowSize = 4096, hopSize = 2048, lowCutoff = 45,
      highCutoff = 65, targetFrequency = 60, frequencyTolerance = 2, minDuration = 5\<rparr>"

record Fingerprint =
  vector :: "real list"
  hash :: string
  mainsFrequency :: real
  extractionQuality :: real
  duration :: real
  fp_sampleRate :: real
  extractedAt :: string

datatype confidence_level = ConfidenceHigh | ConfidenceMedium | ConfidenceLow

datatype proximity_estimate = SameLocation | Nearby | Distant | Unknown

record FingerprintComparison =
  similarity :: real
  correlation :: real
  confidence :: confidence_level
  timeOffset :: real
  proximityEstimate :: proximity_estimate

text \<open>The argument of \<^verbatim>\<open>extract\<close> is a \<^verbatim>\<open>Float32Array\<close> or an \<^verbatim>\<open>Int16Array\<close>.\<close>

datatype audio = Float32Array "real list" | Int16Array "16 word list"

text \<open>
  \<^verbatim>\<open>extract\<close> throws when the audio is too short. Allocating the fingerprint with
  \<^verbatim>\<open>new Float32Array(numFrames)\<close> throws a \<^verbatim>\<open>RangeError\<close> when \<^verbatim>\<open>numFrames\<close>
  is negative.
\<close>

datatype extract_error = AudioTooShortError real | RangeError

section \<open>fingerprint/mains-hum.ts: extraction\<close>

text \<open>
  Every arithmetic result is rounded to a double and every store into a
  \<^verbatim>\<open>Float32Array\<close> rounds to single precision. Subtractions and products of array
  indices and lengths are exact in doubles and are written without rounding.
  \<^verbatim>\<open>x ** 2\<close> is the correctly rounded square and \<^verbatim>\<open>Math.sqrt\<close> the correctly
  rounded square root. \<^verbatim>\<open>Math.cos\<close> and \<^verbatim>\<open>Math.sin\<close> are approximations that the
  language leaves to the engine: they are the two fields of \<open>engine\<close>.
\<close>

record engine =
  math_cos :: "real \<Rightarrow> real"
  math_sin :: "real \<Rightarrow> real"

definition math_pi :: real where
  "math_pi = double pi"

definition js_square :: "real \<Rightarrow> real" where
  "js_square x = double (x * x)"

definition js_sqrt :: "real \<Rightarrow> real" where
  "js_sqrt x = double (sqrt x)"

fun audio_length :: "audio \<Rightarrow> nat" where
  "audio_length (Float32Array xs) = length xs"
| "audio_length (Int16Array xs) = length xs"

fun toFloat32 :: "audio \<Rightarrow> real list" where
  "toFloat32 (Float32Array xs) = xs"
| "toFloat32 (Int16Array xs) = map (\<lambda>x. float32 (double (real_of_int (sint x) / 32768))) xs"

text \<open>
  \<^verbatim>\<open>bandpassFilter\<close>: every sample minus the mean of the samples at the indices
  \<^verbatim>\<open>max(0, i - windowSize) <= j < min(length, i + windowSize)\<close>.
\<close>

definition bandpassFilter :: "real list \<Rightarrow> real \<Rightarrow> real \<Rightarrow> real \<Rightarrow> real list" where
  "bandpassFilter data rate low high =
     (let windowSize = \<lfloor>double (rate / double (double (low + high) / 2))\<rfloor>
      in map (\<lambda>i. let js = [max 0 (int i - windowSize) .. min (int (length data)) (int i + windowSize) - 1];
                       total = foldl (\<lambda>acc j. double (acc + data ! nat j)) 0 js;
                       count = length js
                   in float32 (double (data ! i - double (total / real count)))) [0..<length data])"

text \<open>
  \<^verbatim>\<open>fft\<close> is a plain discrete Fourier transform. The output holds, for every bin
  \<open>k\<close>, the real part at index \<open>2k\<close> and the imaginary part at index \<open>2k + 1\<close>.
\<close>

definition fft_angle :: "nat \<Rightarrow> nat \<Rightarrow> nat \<Rightarrow> real" where
  "fft_angle k t n = double (double (double (double (2 * math_pi) * real k) * real t) / real n)"

definition fft :: "engine \<Rightarrow> real list \<Rightarrow> real list" where
  "fft eng input =
     (let n = length input
      in concat (map (\<lambda>k.
           [float32 (foldl (\<lambda>acc t. double (acc + double (input ! t * math_cos eng (fft_angle k t n))))
                       0 [0..<n]),
            float32 (foldl (\<lambda>acc t. double (acc - double (input ! t * math_sin eng (fft_angle k t n))))
                       0 [0..<n])])
           [0..<n]))"

text \<open>
  \<^verbatim>\<open>detectMainsFrequency\<close>: the loop keeps the bin of the largest magnitude. A read
  past the end of \<^verbatim>\<open>fftResult\<close> gives \<^verbatim>\<open>undefined\<close>, the magnitude is then NaN
  and \<^verbatim>\<open>NaN > maxMagnitude\<close> is false: such a bin changes nothing.
\<close>

definition peak_step :: "real list \<Rightarrow> real \<times> int \<Rightarrow> int \<Rightarrow> real \<times> int" where
  "peak_step fftResult st i =
     (if 0 \<le> i \<and> nat (i * 2 + 1) < length fftResult
      then let magnitude = js_sqrt (double (js_square (fftResult ! nat (i * 2))
                                            + js_square (fftResult ! nat (i * 2 + 1))))
           in if magnitude > fst st then (magnitude, i) else st
      else st)"

definition detectMainsFrequency :: "engine \<Rightarrow> real list \<Rightarrow> real \<Rightarrow> real" where
  "detectMainsFrequency eng data rate =
     (let fftSize = 8192;
          fftResult = fft eng (take fftSize data);
          freqResolution = double (rate / real fftSize);
          startBin = \<lfloor>double (45 / freqResolution)\<rfloor>;
          endBin = \<lceil>double (65 / freqResolution)\<rceil>;
          (maxMagnitude, maxBin) = foldl (peak_step fftResult) (0, startBin) [startBin .. endBin - 1];
          detectedFreq = double (real_of_int maxBin * freqResolution)
      in if \<bar>double (detectedFreq - 50)\<bar> < \<bar>double (detectedFreq - 60)\<bar> then 50 else 60)"

definition applyHammingWindow :: "engine \<Rightarrow> real list \<Rightarrow> real list" where
  "applyHammingWindow eng frame =
     map (\<lambda>i. let window = double (double 0.54 - double (double 0.46 *
                      math_cos eng (double (double (double (2 * math_pi) * real i)
                                            / (real (length frame) - 1)))))
               in float32 (double (frame ! i * window)))
       [0..<length frame]"

text \<open>
  \<^verbatim>\<open>normalize\<close>: on an empty vector \<^verbatim>\<open>Math.min()\<close> is \<open>+\<infinity>\<close> and \<^verbatim>\<open>Math.max()\<close>
  is \<open>-\<infinity>\<close>, the range is not zero and the loop builds an empty result. When the
  range is zero the argument is returned as it is.
\<close>

definition normalize :: "real list \<Rightarrow> real list" where
  "normalize v =
     (if v = [] then []
      else let mn = Min (set v);
               mx = Max (set v);
               range = double (mx - mn)
           in if range = 0 then v
              else map (\<lambda>i. float32 (double (double (v ! i - mn) / range))) [0..<length v])"

text \<open>
  The loop of \<^verbatim>\<open>extractFingerprintVector\<close>: the magnitude of the target bin in
  every frame.
\<close>

definition frame_magnitude :: "engine \<Rightarrow> FingerprintConfig \<Rightarrow> real list \<Rightarrow> int \<Rightarrow> nat \<Rightarrow> real" where
  "frame_magnitude eng cfg data targetBin i =
     (let frameStart = i * hopSize cfg;
          frame = take (fftWindowSize cfg) (drop frameStart data);
          windowed = applyHammingWindow eng frame;
          fftResult = fft eng windowed
      in js_sqrt (double (js_square (fftResult ! nat (targetBin * 2))
                          + js_square (fftResult ! nat (targetBin * 2 + 1)))))"

definition extractFingerprintVector ::
  "engine \<Rightarrow> FingerprintConfig \<Rightarrow> real list \<Rightarrow> real \<Rightarrow> real \<Rightarrow> extract_error + real list"
where
  "extractFingerprintVector eng cfg data rate targetFreq =
     (let numFrames = \<lfloor>double ((real (length data) - real (fftWindowSize cfg)) / real (hopSize cfg))\<rfloor>
      in if numFrames < 0 then Inl RangeError
         else let freqResolution = double (rate / real (fftWindowSize cfg));
                  targetBin = round (double (targetFreq / freqResolution));
                  fingerprint = map (\<lambda>i. float32 (frame_magnitude eng cfg data targetBin i))
                                  [0..<nat numFrames]
              in Inr (normalize fingerprint))"

definition assessExtractionQuality :: "real list \<Rightarrow> real" where
  "assessExtractionQuality v =
     (let mean = double (foldl (\<lambda>acc val. double (acc + val)) 0 v / real (length v));
          variance = double (foldl (\<lambda>acc val. double (acc + js_square (double (val - mean)))) 0 v
                             / real (length v));
          stdDev = js_sqrt variance;
          snrEstimate = double (stdDev / double (mean + double (1 / 10 ^ 10)))
      in min 1.0 (double (snrEstimate / 0.5)))"

text \<open>
  \<^verbatim>\<open>extract\<close>, here \<open>extractFingerprint\<close>. The hash of the vector is computed from the bytes of the
  \<^verbatim>\<open>Float32Array\<close> and the time stamp is read from the clock: both are parameters.
  The sample rate argument is optional and defaults to the configured one. The
  length check compares the length with the rounded product
  \<^verbatim>\<open>sampleRate * minDuration\<close>.
\<close>

definition extractFingerprint ::
  "engine \<Rightarrow> FingerprintConfig \<Rightarrow> (real list \<Rightarrow> string) \<Rightarrow> string \<Rightarrow> audio \<Rightarrow> real option
     \<Rightarrow> extract_error + Fingerprint"
where
  "extractFingerprint eng cfg computeHash now audioData rateArg =
     (let rate = (case rateArg of None \<Rightarrow> sampleRate cfg | Some r \<Rightarrow> r)
      in if real (audio_length audioData) < double (rate * minDuration cfg)
         then Inl (AudioTooShortError (minDuration cfg))
         else
           let floatData = toFloat32 audioData;
               filtered = bandpassFilter floatData rate (lowCutoff cfg) (highCutoff cfg);
               mains = detectMainsFrequency eng filtered rate
           in case extractFingerprintVector eng cfg filtered rate mains of
                Inl e \<Rightarrow> Inl e
              | Inr fingerprintVector \<Rightarrow>
                  Inr \<lparr>vector = fingerprintVector,
                       hash = computeHash fingerprintVector,
                       mainsFrequency = mains,
                       extractionQuality = assessExtractionQuality fingerprintVector,
                       duration = double (real (audio_length audioData) / rate),
                       fp_sampleRate = rate,
                       extractedAt = now\<rparr>)"

section \<open>fingerprint/mains-hum.ts: comparison\<close>

text \<open>
  The inner loop of \<^verbatim>\<open>crossCorrelate\<close> for one offset: the mean of the products
  \<open>vector1[i] * vector2[i + offset]\<close> over the indices \<open>i\<close> below \<open>minLength\<close> with
  \<open>i + offset\<close> inside \<open>vector2\<close>, and 0 when there is no such index.
\<close>

definition correlation_at :: "real list \<Rightarrow> real list \<Rightarrow> int \<Rightarrow> real" where
  "correlation_at vector1 vector2 k =
     (let minLength = min (length vector1) (length vector2);
          idx = filter (\<lambda>i. 0 \<le> int i + k \<and> int i + k < int (length vector2)) [0..<minLength];
          total = foldl (\<lambda>acc i. double (acc + double (vector1 ! i * vector2 ! nat (int i + k)))) 0 idx;
          count = length idx
      in if count > 0 then double (total / real count) else 0)"

text \<open>
  The outer loop starts from \<^verbatim>\<open>maxCorrelation = -Infinity\<close>, written \<open>None\<close>: every
  correlation is greater than it. A later offset replaces the best one only when its
  correlation is strictly greater.
\<close>

definition correlate_step ::
  "real list \<Rightarrow> real list \<Rightarrow> real option \<times> int \<Rightarrow> int \<Rightarrow> real option \<times> int"
where
  "correlate_step vector1 vector2 st k =
     (let c = correlation_at vector1 vector2 k
      in case fst st of
           None \<Rightarrow> (Some c, k)
         | Some maxCorrelation \<Rightarrow> if c > maxCorrelation then (Some c, k) else st)"

definition correlate_loop :: "real list \<Rightarrow> real list \<Rightarrow> real option \<times> int" where
  "correlate_loop vector1 vector2 =
     (let minLength = min (length vector1) (length vector2);
          maxOffset = int (minLength div 2)
      in foldl (correlate_step vector1 vector2) (None, 0) [- maxOffset .. maxOffset])"

text \<open>
  The loop runs at least once (offset 0 is always in its range), so it never ends
  with \<open>-\<infinity>\<close>; this is lemma \<open>correlate_loop_finite\<close> below.
\<close>

definition crossCorrelate :: "real list \<Rightarrow> real list \<Rightarrow> real \<times> int" where
  "crossCorrelate vector1 vector2 =
     (case correlate_loop vector1 vector2 of (maxCorrelation, bestOffset) \<Rightarrow>
        (the maxCorrelation, bestOffset))"

definition cosineSimilarity :: "real list \<Rightarrow> real list \<Rightarrow> real" where
  "cosineSimilarity vector1 vector2 =
     (let minLength = min (length vector1) (length vector2);
          dotProduct = foldl (\<lambda>acc i. double (acc + double (vector1 ! i * vector2 ! i))) 0 [0..<minLength];
          norm1 = foldl (\<lambda>acc i. double (acc + js_square (vector1 ! i))) 0 [0..<minLength];
          norm2 = foldl (\<lambda>acc i. double (acc + js_square (vector2 ! i))) 0 [0..<minLength];
          magnitude = js_sqrt (double (norm1 * norm2))
      in if magnitude > 0 then double (dotProduct / magnitude) else 0)"

definition alignVectors :: "real list \<Rightarrow> int \<Rightarrow> real list" where
  "alignVectors v k =
     map (\<lambda>i. let j = int i + k in float32 (if 0 \<le> j \<and> j < int (length v) then v ! nat j else 0))
       [0..<length v]"

definition determineConfidence :: "real \<Rightarrow> real \<Rightarrow> real \<Rightarrow> confidence_level" where
  "determineConfidence sim quality1 quality2 =
     (let avgQuality = double (double (quality1 + quality2) / 2);
          sc = double (sim * avgQuality)
      in if sc \<ge> double 0.7 then ConfidenceHigh
         else if sc \<ge> double 0.4 then ConfidenceMedium
         else ConfidenceLow)"

definition estimateProximity :: "real \<Rightarrow> int \<Rightarrow> proximity_estimate" where
  "estimateProximity sim timeOffsetFrames =
     (if sim \<ge> double 0.85 \<and> timeOffsetFrames < 10 then SameLocation
      else if sim \<ge> double 0.6 \<and> timeOffsetFrames < 50 then Nearby
      else if sim \<ge> double 0.3 then Distant
      else Unknown)"

definition compare :: "FingerprintConfig \<Rightarrow> Fingerprint \<Rightarrow> Fingerprint \<Rightarrow> FingerprintComparison" where
  "compare cfg fingerprint1 fingerprint2 =
     (if \<bar>double (mainsFrequency fingerprint1 - mainsFrequency fingerprint2)\<bar> > 5
      then \<lparr>similarity = 0, correlation = 0, confidence = ConfidenceLow, timeOffset = 0,
            proximityEstimate = Distant\<rparr>
      else
        let (maxCorrelation, bestOffset) = crossCorrelate (vector fingerprint1) (vector fingerprint2);
            alignedVector2 = alignVectors (vector fingerprint2) bestOffset;
            cosine = cosineSimilarity (vector fingerprint1) alignedVector2;
            sim = double (double (maxCorrelation + cosine) / 2)
        in \<lparr>similarity = sim,
             correlation = maxCorrelation,
             confidence = determineConfidence sim (extractionQuality fingerprint1)
                            (extractionQuality fingerprint2),
             timeOffset = double (real_of_int bestOffset
                                  * double (real (hopSize cfg) / sampleRate cfg)),
             proximityEstimate = estimateProximity sim \<bar>bestOffset\<bar>\<rparr>)"

section \<open>mesh/transport.ts: FingerprintCoordinator.handleFingerprintRequest\<close>

record FingerprintRequest =
  req_mediaItemId :: string
  fingerprintHash :: string
  ephemeralPublicKey :: bytes

record FingerprintResponse =
  resp_mediaItemId :: string
  resp_confidenceScore :: real
  signedReport :: PeerReport

datatype handler_error = NoMatchingFingerprintError

text \<open>
  What the handler reads from its environment: the three calls of
  \<^verbatim>\<open>Math.random()\<close> (the first as a number in \<open>[0, 1)\<close>, the other two already
  turned into the nine base-36 digits appended to the identifiers) and the clock.
\<close>

record handler_env =
  random_score :: real
  random_report_suffix :: string
  random_peer_suffix :: string
  clock :: string

text \<open>
  \<^verbatim>\<open>extractorCallback\<close> returns the local fingerprint or \<^verbatim>\<open>null\<close> (\<open>None\<close>).
  A \<^verbatim>\<open>Float32Array\<close>, even an empty one, is truthy, so only \<^verbatim>\<open>null\<close> takes
  the throwing branch.
\<close>

definition handleFingerprintRequest ::
  "(string \<Rightarrow> real list option) \<Rightarrow> handler_env \<Rightarrow> FingerprintRequest
     \<Rightarrow> handler_error + FingerprintResponse"
where
  "handleFingerprintRequest extractorCallback env request =
     (case extractorCallback (fingerprintHash request) of
        None \<Rightarrow> Inl NoMatchingFingerprintError
      | Some localFingerprint \<Rightarrow>
          let sc = random_score env * 0.5 + 0.5;
              report = \<lparr>report_id = ''report-'' @ random_report_suffix env,
                        mediaItemId = req_mediaItemId request,
                        peerEphemeralId = ''peer-eph-'' @ random_peer_suffix env,
                        confidenceScore = sc,
                        signature = [],
                        ephemeralPubKey = [],
                        timestamp = clock env,
                        peerAddress = ''unknown'',
                        proximityLevel = Near\<rparr>
          in Inr \<lparr>resp_mediaItemId = req_mediaItemId request,
                  resp_confidenceScore = sc,
                  signedReport = report\<rparr>)"

section \<open>Notions used in the statements\<close>

text \<open>
  The options of \<^verbatim>\<open>aggregate\<close> after the defaults are filled in, and the reports
  that are left after the signature filter.
\<close>

definition min_peers_of :: "AggregateOptions \<Rightarrow> real" where
  "min_peers_of options = (case minPeers options of None \<Rightarrow> 3 | Some m \<Rightarrow> m)"

definition verification_enabled :: "AggregateOptions \<Rightarrow> bool" where
  "verification_enabled options = (case verifySignatures options of None \<Rightarrow> True | Some b \<Rightarrow> b)"

definition threshold_of :: "AggregateOptions \<Rightarrow> real" where
  "threshold_of options = (case outlierThreshold options of None \<Rightarrow> 2 | Some t \<Rightarrow> t)"

definition signature_valid :: "crypto_verify \<Rightarrow> PeerReport \<Rightarrow> bool" where
  "signature_valid verify report =
     (verify (serializeReportForSigning report) (signature report) (ephemeralPubKey report) = Some True)"

definition surviving_reports :: "crypto_verify \<Rightarrow> PeerReport list \<Rightarrow> AggregateOptions \<Rightarrow> PeerReport list" where
  "surviving_reports verify reports options =
     (if verification_enabled options then filter (signature_valid verify) reports else reports)"

text \<open>
  The part of \<^verbatim>\<open>aggregate\<close> that follows the minimum check and the signature
  filter, as a function of the surviving reports and the threshold.
\<close>

definition aggregate_survivors :: "PeerReport list \<Rightarrow> real \<Rightarrow> ConfidenceAggregation" where
  "aggregate_survivors reports threshold =
     (let scores = map confidenceScore reports;
          mean = computeMean scores;
          stdDev = computeStdDev scores mean;
          outlierMask = detectOutliers scores mean stdDev threshold;
          filteredScores = keep_unmasked scores outlierMask
      in \<lparr>aggregatedScore = computeMean filteredScores,
          reportCount = length (keep_unmasked reports outlierMask),
          outlierCount = length (filter (\<lambda>isOutlier. isOutlier) outlierMask),
          standardDeviation = stdDev,
          consensusLevel = assessConsensus filteredScores (computeMean filteredScores),
          peerScores = map (\<lambda>(report, isOutlier).
                              \<lparr>peerId = peerEphemeralId report,
                               score = confidenceScore report,
                               included = (\<not> isOutlier)\<rparr>) (zip reports outlierMask)\<rparr>)"

definition surviving_scores :: "crypto_verify \<Rightarrow> PeerReport list \<Rightarrow> AggregateOptions \<Rightarrow> real list" where
  "surviving_scores verify reports options =
     map confidenceScore (surviving_reports verify reports options)"

text \<open>
  The z-score that \<^verbatim>\<open>detectOutliers\<close> compares with the threshold, as the source
  computes it under the rounding \<open>fl\<close>: the rounded quotient of the rounded distance
  from the computed mean by the computed standard deviation when the latter is
  positive, and 0 when it is 0.
\<close>

definition z_score_fl :: "(real \<Rightarrow> real) \<Rightarrow> real list \<Rightarrow> real \<Rightarrow> real" where
  "z_score_fl fl scores s =
     (let mean = computeMean_fl fl scores;
          stdDev = computeStdDev_fl fl scores mean
      in if stdDev > 0 then \<bar>fl (fl (s - mean) / stdDev)\<bar> else 0)"


text \<open>
  The sample rate that \<^verbatim>\<open>extract\<close> works with: its argument, or the configured
  rate when the argument is left out.
\<close>

definition effective_rate :: "FingerprintConfig \<Rightarrow> real option \<Rightarrow> real" where
  "effective_rate cfg rateArg = (case rateArg of None \<Rightarrow> sampleRate cfg | Some r \<Rightarrow> r)"

text \<open>
  The sum of the squares of a vector's elements as the loops of \<^verbatim>\<open>crossCorrelate\<close>
  and \<^verbatim>\<open>cosineSimilarity\<close> accumulate it: every product and every partial sum is
  rounded.
\<close>

definition sum_of_squares :: "real list \<Rightarrow> real" where
  "sum_of_squares v = foldl (\<lambda>acc i. double (acc + double (v ! i * v ! i))) 0 [0..<length v]"

text \<open>
  The factor that \<^verbatim>\<open>applyHammingWindow\<close> applies at index \<open>i\<close> of a frame of length
  \<open>n\<close>.
\<close>

definition hamming :: "engine \<Rightarrow> nat \<Rightarrow> nat \<Rightarrow> real" where
  "hamming eng n i =
     double (double 0.54 - double (double 0.46 *
       math_cos eng (double (double (double (2 * math_pi) * real i) / (real n - 1)))))"

section \<open>Example inputs\<close>

text \<open>
  Reports for the examples. The example crypto capability accepts a signature exactly
  when it is not empty.
\<close>

definition sample_report :: "string \<Rightarrow> real \<Rightarrow> bytes \<Rightarrow> PeerReport" where
  "sample_report pid s sig =
     \<lparr>report_id = ''report-'' @ pid, mediaItemId = ''media-1'', peerEphemeralId = pid,
      confidenceScore = s, signature = sig, ephemeralPubKey = [1],
      timestamp = ''2024-01-01T00:00:00.000Z'', peerAddress = ''unknown'',
      proximityLevel = Near\<rparr>"

definition verify_nonempty :: crypto_verify where
  "verify_nonempty message sig key = Some (sig \<noteq> [])"

definition scenario_scores :: "real list" where
  "scenario_scores = [0.95, 0.94, 0.96, 0.05, 0.97]"

definition scenario_reports :: "PeerReport list" where
  "scenario_reports =
     [sample_report ''peer-1'' 0.95 [1], sample_report ''peer-2'' 0.94 [1],
      sample_report ''peer-3'' 0.96 [1], sample_report ''peer-4'' 0.05 [1],
      sample_report ''peer-5'' 0.97 [1]]"

definition scenario_options :: AggregateOptions where
  "scenario_options = \<lparr>outlierThreshold = Some 2.0, minPeers = None, verifySignatures = None\<rparr>"

definition uniform_reports :: "PeerReport list" where
  "uniform_reports =
     [sample_report ''peer-1'' 0.5 [1], sample_report ''peer-2'' 0.5 [1],
      sample_report ''peer-3'' 0.5 [1]]"

definition negative_threshold_options :: AggregateOptions where
  "negative_threshold_options =
     \<lparr>outlierThreshold = Some (- 1), minPeers = None, verifySignatures = None\<rparr>"

definition unsigned_reports :: "PeerReport list" where
  "unsigned_reports =
     [sample_report ''peer-1'' 0.9 [], sample_report ''peer-2'' 0.8 [],
      sample_report ''peer-3'' 0.7 []]"

definition corrupted_reports :: "PeerReport list" where
  "corrupted_reports =
     [sample_report ''peer-1'' 0.9 [1], sample_report ''peer-2'' 0.8 [],
      sample_report ''peer-3'' 0.85 [1], sample_report ''peer-4'' 0.9 [1]]"

definition two_reports :: "PeerReport list" where
  "two_reports = [sample_report ''peer-1'' 0.9 [1], sample_report ''peer-2'' 0.8 [1]]"

definition no_local_fingerprint :: "string \<Rightarrow> real list option" where
  "no_local_fingerprint requestedHash = None"

definition sample_env :: handler_env where
  "sample_env = \<lparr>random_score = 0.25, random_report_suffix = ''k3j9x0q2a'',
                  random_peer_suffix = ''p7m1z4c8b'', clock = ''2024-01-01T00:00:00.000Z''\<rparr>"

definition sample_request :: FingerprintRequest where
  "sample_request = \<lparr>req_mediaItemId = ''media-1'', fingerprintHash = ''00ab'',
                      ephemeralPublicKey = []\<rparr>"

text \<open>Audio and fingerprints for the examples.\<close>

definition two_seconds_of_silence :: audio where
  "two_seconds_of_silence = Float32Array (replicate 88200 0)"

definition no_hash :: "real list \<Rightarrow> string" where
  "no_hash v = replicate 64 CHR ''0''"

definition sample_fingerprint :: "real list \<Rightarrow> Fingerprint" where
  "sample_fingerprint v =
     \<lparr>vector = v, hash = replicate 64 CHR ''0'', mainsFrequency = 60, extractionQuality = 1,
      duration = 5, fp_sampleRate = 44100, extractedAt = ''2024-01-01T00:00:00.000Z''\<rparr>"

text \<open>
  Eight reports, one of them far from the others; all scores are doubles.
\<close>

definition outlier_reports :: "PeerReport list" where
  "outlier_reports =
     [sample_report ''peer-1'' 0.125 [1], sample_report ''peer-2'' 0.875 [1],
      sample_report ''peer-3'' 0.875 [1], sample_report ''peer-4'' 0.875 [1],
      sample_report ''peer-5'' 0.875 [1], sample_report ''peer-6'' 0.875 [1],
      sample_report ''peer-7'' 0.875 [1], sample_report ''peer-8'' 0.625 [1]]"

text \<open>
  Three reports with the score that the literal \<^verbatim>\<open>0.7\<close> denotes, the double nearest
  to 0.7, and options with the threshold 0.5.
\<close>

definition equal_reports :: "PeerReport list" where
  "equal_reports =
     [sample_report ''peer-1'' (double 0.7) [1], sample_report ''peer-2'' (double 0.7) [1],
      sample_report ''peer-3'' (double 0.7) [1]]"

definition half_threshold_options :: AggregateOptions where
  "half_threshold_options =
     \<lparr>outlierThreshold = Some 0.5, minPeers = None, verifySignatures = None\<rparr>"

text \<open>
  An engine whose \<^verbatim>\<open>Math.cos\<close> and \<^verbatim>\<open>Math.sin\<close> are the correctly rounded cosine
  and sine.
\<close>

definition sample_engine :: engine where
  "sample_engine = \<lparr>math_cos = (\<lambda>x. double (cos x)), math_sin = (\<lambda>x. double (sin x))\<rparr>"

text \<open>
  An audio input of a single sample; a fingerprint whose vector holds 0.96875 and
  1, both single-precision numbers; and a step from 0 to 100 after the first sample,
  6144 samples long.
\<close>

definition one_sample :: audio where
  "one_sample = Float32Array [0]"

definition steady_fingerprint :: Fingerprint where
  "steady_fingerprint = sample_fingerprint [0.96875, 1]"

definition step_audio :: audio where
  "step_audio = Float32Array (0 # replicate 6143 100)"

section \<open>Sums, means and deviations\<close>

lemma foldl_add_sum_list: "foldl (\<lambda>acc val. acc + val) a xs = a + sum_list (xs :: real list)"
  by (induction xs arbitrary: a) simp_all

lemma foldl_sq_sum_list:
  "foldl (\<lambda>acc val. acc + (val - m)\<^sup>2) a xs = a + sum_list (map (\<lambda>val. (val - m)\<^sup>2) (xs :: real list))"
  by (induction xs arbitrary: a) simp_all

lemma computeMean_sum_list:
  "computeMean xs = (if xs = [] then 0 else sum_list xs / real (length xs))"
  by (simp add: computeMean_def foldl_add_sum_list)

lemma computeStdDev_sum_list:
  "computeStdDev xs m =
     (if xs = [] then 0 else sqrt (sum_list (map (\<lambda>val. (val - m)\<^sup>2) xs) / real (length xs)))"
  by (simp add: computeStdDev_def foldl_sq_sum_list)

lemma sum_list_bounds:
  assumes "\<forall>x\<in>set xs. lo \<le> x \<and> x \<le> (hi::real)"
  shows "real (length xs) * lo \<le> sum_list xs \<and> sum_list xs \<le> real (length xs) * hi"
  using assms by (induction xs) (auto simp: algebra_simps)

lemma computeMean_unit_interval:
  assumes "\<forall>x\<in>set xs. 0 \<le> x \<and> x \<le> 1"
  shows "0 \<le> computeMean xs \<and> computeMean xs \<le> 1"
proof (cases "xs = []")
  case True
  then show ?thesis by (simp add: computeMean_sum_list)
next
  case False
  then have pos: "0 < real (length xs)" by simp
  from sum_list_bounds[OF assms] have "0 \<le> sum_list xs" "sum_list xs \<le> real (length xs)" by simp_all
  with pos False show ?thesis
    by (simp add: computeMean_sum_list divide_le_eq)
qed

lemma zscore_gt_iff:
  assumes "0 < v" and "0 \<le> t"
  shows "(\<bar>d\<bar> / sqrt v > t) = (d\<^sup>2 > t\<^sup>2 * v)"
proof -
  have sv: "0 < sqrt v" using assms(1) by simp
  have nn: "0 \<le> t * sqrt v" using assms(2) sv by simp
  have "(\<bar>d\<bar> \<le> t * sqrt v) = (\<bar>d\<bar> \<le> \<bar>t * sqrt v\<bar>)"
    using nn by simp
  also have "\<dots> = (d\<^sup>2 \<le> (t * sqrt v)\<^sup>2)"
    by (rule abs_le_square_iff)
  also have "\<dots> = (d\<^sup>2 \<le> t\<^sup>2 * v)"
    using assms(1) by (simp add: power_mult_distrib)
  finally have le: "(\<bar>d\<bar> \<le> t * sqrt v) = (d\<^sup>2 \<le> t\<^sup>2 * v)" .
  have "(\<bar>d\<bar> / sqrt v > t) = (\<bar>d\<bar> > t * sqrt v)"
    using sv by (simp add: pos_less_divide_eq)
  with le show ?thesis by (simp add: not_le [symmetric])
qed

lemma sqrt_less_iff_sq:
  assumes "0 \<le> v" and "0 < c"
  shows "(sqrt v < c) = (v < c\<^sup>2)"
  using assms by (metis real_sqrt_less_iff real_sqrt_abs abs_of_pos)

lemma cv_less_iff:
  assumes "0 \<le> v" and "0 < m" and "0 < c"
  shows "(sqrt v / m < c) = (v < (c * m)\<^sup>2)"
proof -
  have "(sqrt v / m < c) = (sqrt v < c * m)"
    using assms(2) by (simp add: pos_divide_less_eq)
  also have "\<dots> = (v < (c * m)\<^sup>2)"
    using assms by (intro sqrt_less_iff_sq) simp_all
  finally show ?thesis .
qed

section \<open>The steps of aggregate\<close>

lemma set_keep_unmasked: "set (keep_unmasked xs m) \<subseteq> set xs"
  by (auto simp: keep_unmasked_def dest: set_zip_leftD)

lemma keep_unmasked_none_flagged:
  assumes "length m = length xs" and "\<forall>b\<in>set m. \<not> b"
  shows "keep_unmasked xs m = xs"
  using assms unfolding keep_unmasked_def
  by (induction m xs rule: list_induct2) auto

lemma verifyReportSignatures_filter:
  "verifyReportSignatures verify reports = filter (signature_valid verify) reports"
  by (induction reports) (auto simp: signature_valid_def split: option.splits bool.splits)

lemma set_surviving_reports: "set (surviving_reports verify reports options) \<subseteq> set reports"
  by (auto simp: surviving_reports_def)

lemma aggregate_unfold:
  "aggregate verify reports options =
     (if real (length reports) < min_peers_of options
      then Inl (InsufficientReportsError (length reports) (min_peers_of options))
      else Inr (aggregate_survivors (surviving_reports verify reports options) (threshold_of options)))"
  by (simp add: aggregate_def aggregate_survivors_def surviving_reports_def min_peers_of_def
      verification_enabled_def threshold_of_def verifyReportSignatures_filter Let_def
      split: option.splits)

lemma length_detectOutliers [simp]: "length (detectOutliers xs m s t) = length xs"
  by (simp add: detectOutliers_def)

lemma detectOutliers_sqrt:
  assumes "0 < v" and "0 \<le> t"
  shows "detectOutliers xs m (sqrt v) t = map (\<lambda>x. (x - m)\<^sup>2 > t\<^sup>2 * v) xs"
  using assms by (simp add: detectOutliers_def zscore_gt_iff)

lemma assessConsensus_squares:
  assumes "xs \<noteq> []" and "0 < computeMean xs"
  shows "assessConsensus xs a =
     (let m = computeMean xs;
          v = sum_list (map (\<lambda>val. (val - m)\<^sup>2) xs) / real (length xs)
      in if v < (0.1 * m)\<^sup>2 \<and> a \<ge> 0.7 then ConsensusHigh
         else if v < (0.3 * m)\<^sup>2 \<and> a \<ge> 0.5 then ConsensusMedium
         else ConsensusLow)"
proof -
  let ?m = "computeMean xs"
  let ?v = "sum_list (map (\<lambda>val. (val - ?m)\<^sup>2) xs) / real (length xs)"
  have v: "0 \<le> ?v" by (intro divide_nonneg_nonneg sum_list_nonneg) auto
  have sd: "computeStdDev xs ?m = sqrt ?v"
    using assms(1) by (simp add: computeStdDev_sum_list)
  have c1: "(sqrt ?v / ?m < 0.1) = (?v < (0.1 * ?m)\<^sup>2)"
    by (rule cv_less_iff[OF v assms(2)]) simp
  have c3: "(sqrt ?v / ?m < 0.3) = (?v < (0.3 * ?m)\<^sup>2)"
    by (rule cv_less_iff[OF v assms(2)]) simp
  show ?thesis
    unfolding assessConsensus_def Let_def sd
    using assms c1 c3 by simp
qed

lemma aggregate_survivors_Nil:
  "aggregate_survivors [] t =
     \<lparr>aggregatedScore = 0, reportCount = 0, outlierCount = 0, standardDeviation = 0,
      consensusLevel = ConsensusLow, peerScores = []\<rparr>"
  by (simp add: aggregate_survivors_def computeMean_def computeStdDev_def detectOutliers_def
      keep_unmasked_def assessConsensus_def)

lemma aggregatedScore_survivors:
  "aggregatedScore (aggregate_survivors reports t) =
     computeMean (keep_unmasked (map confidenceScore reports)
       (detectOutliers (map confidenceScore reports) (computeMean (map confidenceScore reports))
          (computeStdDev (map confidenceScore reports) (computeMean (map confidenceScore reports))) t))"
  by (simp add: aggregate_survivors_def Let_def)

lemma kept_scores_in_unit:
  assumes "\<forall>r\<in>set reports. 0 \<le> confidenceScore r \<and> confidenceScore r \<le> 1"
    and "x \<in> set (keep_unmasked (map confidenceScore reports) m)"
  shows "0 \<le> x \<and> x \<le> 1"
proof -
  from assms(2) have "x \<in> set (map confidenceScore reports)"
    by (rule subsetD[OF set_keep_unmasked])
  then obtain r where "r \<in> set reports" "x = confidenceScore r" by auto
  with assms(1) show ?thesis by blast
qed

section \<open>The example inputs evaluated\<close>

lemma scenario_mean: "computeMean scenario_scores = 0.774"
  by (simp add: computeMean_def scenario_scores_def)

lemma scenario_stdDev: "computeStdDev scenario_scores 0.774 = sqrt 0.131144"
  by (simp add: computeStdDev_def scenario_scores_def power2_eq_square)

lemma scenario_no_outliers:
  "detectOutliers scenario_scores 0.774 (sqrt 0.131144) 2 = [False, False, False, False, False]"
  by (subst detectOutliers_sqrt) (simp_all add: scenario_scores_def power2_eq_square)

lemma scenario_consensus: "assessConsensus scenario_scores 0.774 = ConsensusLow"
  by (subst assessConsensus_squares)
     (simp_all add: scenario_mean Let_def, simp_all add: scenario_scores_def power2_eq_square)

lemma aggregate_survivors_scenario:
  assumes "map confidenceScore reports = scenario_scores"
  shows "aggregate_survivors reports 2 =
     \<lparr>aggregatedScore = 0.774, reportCount = 5, outlierCount = 0,
      standardDeviation = sqrt 0.131144, consensusLevel = ConsensusLow,
      peerScores = map (\<lambda>report. \<lparr>peerId = peerEphemeralId report,
                                   score = confidenceScore report, included = True\<rparr>) reports\<rparr>"
proof -
  have len: "length reports = 5"
    using arg_cong[OF assms, of length] by (simp add: scenario_scores_def)
  let ?m = "[False, False, False, False, False]"
  have k1: "keep_unmasked scenario_scores ?m = scenario_scores"
    by (rule keep_unmasked_none_flagged) (simp_all add: scenario_scores_def)
  have k2: "keep_unmasked reports ?m = reports"
    by (rule keep_unmasked_none_flagged) (simp_all add: len)
  have z: "map (\<lambda>(report, isOutlier). \<lparr>peerId = peerEphemeralId report,
              score = confidenceScore report, included = (\<not> isOutlier)\<rparr>) (zip reports ?m)
           = map (\<lambda>report. \<lparr>peerId = peerEphemeralId report,
                                   score = confidenceScore report, included = True\<rparr>) reports"
    using len by (intro nth_equalityI) (auto simp: nth_Cons split: nat.splits)
  show ?thesis
    unfolding aggregate_survivors_def Let_def assms scenario_mean scenario_stdDev
      scenario_no_outliers k1 k2 z scenario_consensus
    by (simp add: len)
qed

lemma scenario_reports_scores: "map confidenceScore scenario_reports = scenario_scores"
  by (simp add: scenario_reports_def scenario_scores_def sample_report_def)

lemma scenario_reports_valid: "\<forall>r\<in>set scenario_reports. signature_valid verify_nonempty r"
  by (simp add: scenario_reports_def signature_valid_def verify_nonempty_def sample_report_def)

lemma scenario_options_simps:
  "threshold_of scenario_options = 2" "min_peers_of scenario_options = 3"
  "verification_enabled scenario_options"
  by (simp_all add: scenario_options_def threshold_of_def min_peers_of_def verification_enabled_def)

lemma no_options_simps:
  "threshold_of no_options = 2" "min_peers_of no_options = 3" "verification_enabled no_options"
  by (simp_all add: no_options_def threshold_of_def min_peers_of_def verification_enabled_def)

section \<open>Claims about ConfidenceAggregator.aggregate\<close>

text \<open>
  Claim C1, as stated: for the five scores 0.95, 0.94, 0.96, 0.05, 0.97 and
  \<open>outlierThreshold = 2.0\<close> the report with score 0.05 is flagged and excluded.
  The code does not do that. The mean is 0.774 and the standard deviation is
  \<open>sqrt 0.131144\<close>, about 0.3621, so the z-score of 0.05 is about 1.9992, which is
  not above 2. The evaluation below is the result of \<open>aggregate\<close> on this input: no
  outlier, aggregated score 0.774, low consensus.
\<close>

theorem aggregate_scenario_counterexample:
  "aggregate verify_nonempty scenario_reports scenario_options =
     Inr \<lparr>aggregatedScore = 0.774, reportCount = 5, outlierCount = 0,
          standardDeviation = sqrt 0.131144, consensusLevel = ConsensusLow,
          peerScores =
            [\<lparr>peerId = ''peer-1'', score = 0.95, included = True\<rparr>,
             \<lparr>peerId = ''peer-2'', score = 0.94, included = True\<rparr>,
             \<lparr>peerId = ''peer-3'', score = 0.96, included = True\<rparr>,
             \<lparr>peerId = ''peer-4'', score = 0.05, included = True\<rparr>,
             \<lparr>peerId = ''peer-5'', score = 0.97, included = True\<rparr>]\<rparr>"
proof -
  have surv: "surviving_reports verify_nonempty scenario_reports scenario_options = scenario_reports"
    using scenario_reports_valid by (simp add: surviving_reports_def)
  have "length scenario_reports = 5" by (simp add: scenario_reports_def)
  then show ?thesis
    by (simp add: aggregate_unfold scenario_options_simps surv
        aggregate_survivors_scenario[OF scenario_reports_scores])
       (simp add: scenario_reports_def sample_report_def)
qed

text \<open>
  Claim C1, amended: for every list of five reports with these scores, with signature
  verification disabled or all signatures valid, threshold 2.0 and at most five
  required peers, \<open>aggregate\<close> returns normally, flags no report, counts five reports
  and no outlier, and returns the mean of all five scores, 0.774, with low consensus.
\<close>

theorem aggregate_scenario_keeps_all:
  assumes "map confidenceScore reports = [0.95, 0.94, 0.96, 0.05, 0.97]"
    and "verification_enabled options \<longrightarrow> (\<forall>r\<in>set reports. signature_valid verify r)"
    and "threshold_of options = 2"
    and "min_peers_of options \<le> 5"
  shows "\<exists>result. aggregate verify reports options = Inr result
           \<and> outlierCount result = 0 \<and> reportCount result = 5
           \<and> aggregatedScore result = 0.774 \<and> consensusLevel result = ConsensusLow
           \<and> map included (peerScores result) = [True, True, True, True, True]"
proof -
  have scores: "map confidenceScore reports = scenario_scores"
    using assms(1) by (simp add: scenario_scores_def)
  have len: "length reports = 5"
    using arg_cong[OF assms(1), of length] by simp
  have surv: "surviving_reports verify reports options = reports"
    using assms(2) by (simp add: surviving_reports_def)
  have "aggregate verify reports options = Inr (aggregate_survivors reports 2)"
    using assms(3,4) len by (simp add: aggregate_unfold surv)
  moreover have "map (\<lambda>report. True) reports = [True, True, True, True, True]"
    using len by (intro nth_equalityI) (auto simp: nth_Cons split: nat.splits)
  ultimately show ?thesis
    by (simp add: aggregate_survivors_scenario[OF scores] o_def)
qed

theorem aggregate_scenario_keeps_all_witness:
  "map confidenceScore scenario_reports = [0.95, 0.94, 0.96, 0.05, 0.97]
   \<and> threshold_of scenario_options = 2
   \<and> min_peers_of scenario_options \<le> 5
   \<and> (\<exists>result. aggregate verify_nonempty scenario_reports scenario_options = Inr result
           \<and> outlierCount result = 0 \<and> reportCount result = 5
           \<and> aggregatedScore result = 0.774 \<and> consensusLevel result = ConsensusLow
           \<and> map included (peerScores result) = [True, True, True, True, True])"
proof -
  have h1: "map confidenceScore scenario_reports = [0.95, 0.94, 0.96, 0.05, 0.97]"
    by (simp add: scenario_reports_scores scenario_scores_def)
  have h2: "verification_enabled scenario_options \<longrightarrow>
              (\<forall>r\<in>set scenario_reports. signature_valid verify_nonempty r)"
    using scenario_reports_valid by simp
  have h3: "threshold_of scenario_options = 2" and h4: "min_peers_of scenario_options \<le> 5"
    by (simp_all add: scenario_options_simps)
  from aggregate_scenario_keeps_all[OF h1 h2 h3 h4] h1 h3 h4
  show ?thesis by blast
qed

text \<open>
  Claim C4: \<open>aggregate\<close> fails with the insufficient-reports error exactly when the
  input list is shorter than \<open>minPeers\<close> (3 by default). The check reads the input
  list, before the signature filter: with at least \<open>minPeers\<close> reports and
  verification enabled, the result is the aggregation of the reports whose signature
  verifies, however few they are, and no error is raised.
\<close>

theorem aggregate_insufficient_iff:
  "(isl (aggregate verify reports options) \<longleftrightarrow> real (length reports) < min_peers_of options)
   \<and> (real (length reports) < min_peers_of options \<longrightarrow>
        aggregate verify reports options
          = Inl (InsufficientReportsError (length reports) (min_peers_of options)))
   \<and> (\<not> real (length reports) < min_peers_of options \<longrightarrow> verification_enabled options \<longrightarrow>
        aggregate verify reports options
          = Inr (aggregate_survivors (filter (signature_valid verify) reports) (threshold_of options)))"
  by (simp add: aggregate_unfold surviving_reports_def)

theorem aggregate_insufficient_iff_witness:
  "real (length two_reports) < min_peers_of no_options
   \<and> aggregate verify_nonempty two_reports no_options = Inl (InsufficientReportsError 2 3)
   \<and> \<not> real (length corrupted_reports) < min_peers_of no_options
   \<and> verification_enabled no_options
   \<and> \<not> isl (aggregate verify_nonempty corrupted_reports no_options)
   \<and> aggregate verify_nonempty corrupted_reports no_options
       = Inr (aggregate_survivors
               [sample_report ''peer-1'' 0.9 [1], sample_report ''peer-3'' 0.85 [1],
                sample_report ''peer-4'' 0.9 [1]] 2)"
proof -
  have two: "real (length two_reports) < min_peers_of no_options"
    by (simp add: two_reports_def no_options_simps)
  have four: "\<not> real (length corrupted_reports) < min_peers_of no_options"
    by (simp add: corrupted_reports_def no_options_simps)
  have kept: "filter (signature_valid verify_nonempty) corrupted_reports
                = [sample_report ''peer-1'' 0.9 [1], sample_report ''peer-3'' 0.85 [1],
                   sample_report ''peer-4'' 0.9 [1]]"
    by (simp add: corrupted_reports_def signature_valid_def verify_nonempty_def sample_report_def)
  have len: "length two_reports = 2"
    by (simp add: two_reports_def)
  from aggregate_insufficient_iff[of verify_nonempty two_reports no_options]
       aggregate_insufficient_iff[of verify_nonempty corrupted_reports no_options]
       two four
  show ?thesis
    by (simp add: kept len no_options_simps)
qed

text \<open>
  Claim C6: for every list of at least \<open>minPeers\<close> reports whose scores all lie in
  \<open>[0, 1]\<close>, whatever the signature verification answers and whichever reports are
  flagged as outliers, \<open>aggregate\<close> returns an aggregation whose \<open>aggregatedScore\<close>
  lies in \<open>[0, 1]\<close>.
\<close>

theorem aggregate_score_in_unit_interval:
  assumes "\<not> real (length reports) < min_peers_of options"
    and "\<forall>r\<in>set reports. 0 \<le> confidenceScore r \<and> confidenceScore r \<le> 1"
  shows "\<exists>result. aggregate verify reports options = Inr result
           \<and> 0 \<le> aggregatedScore result \<and> aggregatedScore result \<le> 1"
proof -
  let ?surv = "surviving_reports verify reports options"
  let ?result = "aggregate_survivors ?surv (threshold_of options)"
  have surv: "\<forall>r\<in>set ?surv. 0 \<le> confidenceScore r \<and> confidenceScore r \<le> 1"
    using assms(2) set_surviving_reports[of verify reports options] by (meson subsetD)
  have "0 \<le> aggregatedScore ?result \<and> aggregatedScore ?result \<le> 1"
    unfolding aggregatedScore_survivors
    by (rule computeMean_unit_interval) (use kept_scores_in_unit[OF surv] in blast)
  moreover from assms(1) have "aggregate verify reports options = Inr ?result"
    by (simp add: aggregate_unfold)
  ultimately show ?thesis by blast
qed

theorem aggregate_score_in_unit_interval_witness:
  "\<not> real (length scenario_reports) < min_peers_of scenario_options
   \<and> map confidenceScore scenario_reports = [0.95, 0.94, 0.96, 0.05, 0.97]
   \<and> (\<exists>result. aggregate verify_nonempty scenario_reports scenario_options = Inr result
           \<and> 0 \<le> aggregatedScore result \<and> aggregatedScore result \<le> 1)"
proof -
  have h1: "\<not> real (length scenario_reports) < min_peers_of scenario_options"
    by (simp add: scenario_reports_def scenario_options_simps)
  have h2: "\<forall>r\<in>set scenario_reports. 0 \<le> confidenceScore r \<and> confidenceScore r \<le> 1"
    by (simp add: scenario_reports_def sample_report_def)
  have h3: "map confidenceScore scenario_reports = [0.95, 0.94, 0.96, 0.05, 0.97]"
    by (simp add: scenario_reports_scores scenario_scores_def)
  from aggregate_score_in_unit_interval[OF h1 h2, of verify_nonempty] h1 h3
  show ?thesis by blast
qed

text \<open>
  Claim C10: when \<open>aggregate\<close> is called with at least \<open>minPeers\<close> reports, with
  signature verification enabled, and no report passes the verification, it does
  not raise: it returns the aggregation with score 0, no report, no outlier, standard
  deviation 0, low consensus and an empty list of peer scores.
\<close>

theorem aggregate_all_signatures_invalid:
  assumes "\<not> real (length reports) < min_peers_of options"
    and "verification_enabled options"
    and "\<forall>r\<in>set reports. \<not> signature_valid verify r"
  shows "aggregate verify reports options =
     Inr \<lparr>aggregatedScore = 0, reportCount = 0, outlierCount = 0, standardDeviation = 0,
          consensusLevel = ConsensusLow, peerScores = []\<rparr>"
proof -
  from assms(3) have "filter (signature_valid verify) reports = []"
    by (simp add: filter_empty_conv)
  with assms(1,2) show ?thesis
    by (simp add: aggregate_unfold surviving_reports_def aggregate_survivors_Nil)
qed

theorem aggregate_all_signatures_invalid_witness:
  "\<not> real (length unsigned_reports) < min_peers_of no_options
   \<and> verification_enabled no_options
   \<and> map (signature_valid verify_nonempty) unsigned_reports = [False, False, False]
   \<and> aggregate verify_nonempty unsigned_reports no_options =
       Inr \<lparr>aggregatedScore = 0, reportCount = 0, outlierCount = 0, standardDeviation = 0,
            consensusLevel = ConsensusLow, peerScores = []\<rparr>"
proof -
  have h1: "\<not> real (length unsigned_reports) < min_peers_of no_options"
    by (simp add: unsigned_reports_def no_options_simps)
  have h2: "verification_enabled no_options"
    by (simp add: no_options_simps)
  have h3: "\<forall>r\<in>set unsigned_reports. \<not> signature_valid verify_nonempty r"
    by (simp add: unsigned_reports_def signature_valid_def verify_nonempty_def sample_report_def)
  have h4: "map (signature_valid verify_nonempty) unsigned_reports = [False, False, False]"
    by (simp add: unsigned_reports_def signature_valid_def verify_nonempty_def sample_report_def)
  from aggregate_all_signatures_invalid[OF h1 h2 h3] h1 h2 h4
  show ?thesis by blast
qed

section \<open>Claims about TamperDetectionAnalyzer.analyzeTampering\<close>


section \<open>Claims about FingerprintCoordinator.handleFingerprintRequest\<close>

text \<open>
  Claim C2, as stated: a responder without a local fingerprint for the requested
  media answers with a report of score 0 instead of an error. The code throws:
  on the example request, with a lookup that finds nothing, the handler ends with
  the error and builds no response.
\<close>

theorem handleFingerprintRequest_counterexample:
  "handleFingerprintRequest no_local_fingerprint sample_env sample_request
     = Inl NoMatchingFingerprintError"
  by (simp add: handleFingerprintRequest_def no_local_fingerprint_def)

text \<open>
  Claim C2, amended: whenever the local lookup returns \<^verbatim>\<open>null\<close>,
  \<open>handleFingerprintRequest\<close> raises the error "No matching fingerprint found locally"
  and returns no response.
\<close>

theorem handleFingerprintRequest_missing_raises:
  assumes "extractorCallback (fingerprintHash request) = None"
  shows "handleFingerprintRequest extractorCallback env request = Inl NoMatchingFingerprintError"
  using assms by (simp add: handleFingerprintRequest_def)

theorem handleFingerprintRequest_missing_raises_witness:
  "no_local_fingerprint (fingerprintHash sample_request) = None
   \<and> handleFingerprintRequest no_local_fingerprint sample_env sample_request
       = Inl NoMatchingFingerprintError"
proof -
  have h: "no_local_fingerprint (fingerprintHash sample_request) = None"
    by (simp add: no_local_fingerprint_def)
  from handleFingerprintRequest_missing_raises
         [of no_local_fingerprint sample_request sample_env, OF h] h
  show ?thesis by simp
qed

section \<open>Rounding: errors and exact cases\<close>

text \<open>
  Rounding moves a number by at most half a unit in the last place, which is a
  relative error of at most \<open>2\<^sup>-\<^sup>p\<close>; a number with a significand of fewer than \<open>p\<close>
  bits is not moved at all.
\<close>

lemma round_half_even_of_int: "round_half_even (real_of_int k) = k"
  by (simp add: round_half_even_def)

lemma round_half_even_error: "\<bar>real_of_int (round_half_even q) - q\<bar> \<le> 1 / 2"
  unfolding round_half_even_def by (auto simp: abs_if) linarith+

lemma binade_bounds:
  assumes "x \<noteq> 0"
  shows "2 powr real_of_int (binade x) \<le> \<bar>x\<bar>"
    and "\<bar>x\<bar> < 2 powr (real_of_int (binade x) + 1)"
proof -
  have pos: "0 < \<bar>x\<bar>" using assms by simp
  have "real_of_int (binade x) \<le> log 2 \<bar>x\<bar>"
    by (simp add: binade_def)
  then have "2 powr real_of_int (binade x) \<le> 2 powr log 2 \<bar>x\<bar>"
    by simp
  then show "2 powr real_of_int (binade x) \<le> \<bar>x\<bar>"
    using pos by simp
  have "log 2 \<bar>x\<bar> < real_of_int (binade x) + 1"
    by (simp add: binade_def)
  then have "2 powr log 2 \<bar>x\<bar> < 2 powr (real_of_int (binade x) + 1)"
    by simp
  then show "\<bar>x\<bar> < 2 powr (real_of_int (binade x) + 1)"
    using pos by simp
qed

lemma ulp_pos: "0 < ulp p x"
  by (simp add: ulp_def)

lemma to_precision_error:
  "\<bar>to_precision p x - x\<bar> \<le> \<bar>x\<bar> / 2 ^ p"
proof (cases "x = 0")
  case True
  then show ?thesis by (simp add: to_precision_def)
next
  case False
  let ?u = "ulp p x"
  let ?r = "real_of_int (round_half_even (x / ?u))"
  have u: "0 < ?u" by (rule ulp_pos)
  have "?r * ?u - x = (?r - x / ?u) * ?u"
    using u by (simp add: field_simps)
  then have "\<bar>?r * ?u - x\<bar> = \<bar>?r - x / ?u\<bar> * ?u"
    using u by (simp add: abs_mult)
  also have "\<dots> \<le> (1 / 2) * ?u"
    using round_half_even_error[of "x / ?u"] u by (intro mult_right_mono) simp_all
  also have "\<dots> = 2 powr real_of_int (binade x) / 2 ^ p"
  proof -
    have "?u = 2 powr (real_of_int (binade x) - real p + 1)"
      by (simp add: ulp_def algebra_simps)
    also have "\<dots> = 2 powr real_of_int (binade x) * 2 powr (- real p) * 2"
      by (simp add: powr_add powr_diff powr_minus field_simps)
    also have "2 powr (- real p) = 1 / 2 ^ p"
      by (simp add: powr_minus powr_realpow field_simps)
    finally show ?thesis by simp
  qed
  also have "\<dots> \<le> \<bar>x\<bar> / 2 ^ p"
    using binade_bounds(1)[OF False] by (simp add: divide_right_mono)
  finally show ?thesis
    using False by (simp add: to_precision_def)
qed

lemma to_precision_representable:
  assumes x: "x = real_of_int k * 2 powr real_of_int j" and k: "\<bar>k\<bar> < 2 ^ p"
  shows "to_precision p x = x"
proof (cases "x = 0")
  case True
  then show ?thesis by (simp add: to_precision_def)
next
  case False
  let ?e = "binade x"
  let ?d = "j - (?e - (int p - 1))"
  have "\<bar>x\<bar> = real_of_int \<bar>k\<bar> * 2 powr real_of_int j"
    unfolding x by (simp add: abs_mult)
  also have "\<dots> < 2 ^ p * 2 powr real_of_int j"
  proof -
    have "real_of_int \<bar>k\<bar> < real_of_int (2 ^ p)"
      using k by (simp only: of_int_less_iff)
    then show ?thesis by simp
  qed
  also have "\<dots> = 2 powr (real p + real_of_int j)"
    by (simp add: powr_add powr_realpow)
  finally have "2 powr real_of_int ?e < 2 powr (real p + real_of_int j)"
    using binade_bounds(1)[OF False] by linarith
  then have "real_of_int ?e < real p + real_of_int j"
    by simp
  then have "?e < int p + j" by linarith
  then have d: "0 \<le> ?d" by simp
  have "x / ulp p x = real_of_int k * (2 powr real_of_int j / 2 powr real_of_int (?e - (int p - 1)))"
    unfolding x ulp_def by simp
  also have "2 powr real_of_int j / 2 powr real_of_int (?e - (int p - 1)) = 2 powr real_of_int ?d"
    by (simp add: powr_diff)
  also have "2 powr real_of_int ?d = 2 ^ nat ?d"
    using d by (simp add: powr_realpow[symmetric])
  also have "real_of_int k * 2 ^ nat ?d = real_of_int (k * 2 ^ nat ?d)"
    by simp
  finally have q: "x / ulp p x = real_of_int (k * 2 ^ nat ?d)" .
  have "to_precision p x = x / ulp p x * ulp p x"
    using False unfolding to_precision_def q round_half_even_of_int by simp
  also have "\<dots> = x"
    using ulp_pos[of p x] by simp
  finally show ?thesis .
qed

lemma to_precision_dyadic:
  assumes "\<bar>k\<bar> < 2 ^ p"
  shows "to_precision p (real_of_int k / 2 ^ n) = real_of_int k / 2 ^ n"
proof -
  have "real_of_int k / 2 ^ n = real_of_int k * 2 powr real_of_int (- int n)"
    by (simp add: powr_minus powr_realpow field_simps)
  then show ?thesis
    using to_precision_representable[OF _ assms, of "real_of_int k / 2 ^ n" "- int n"] by simp
qed

lemma double_dyadic:
  "\<bar>k\<bar> < 2 ^ 53 \<Longrightarrow> double (real_of_int k / 2 ^ n) = real_of_int k / 2 ^ n"
  unfolding double_def by (rule to_precision_dyadic)

lemma float32_dyadic:
  "\<bar>k\<bar> < 2 ^ 24 \<Longrightarrow> float32 (real_of_int k / 2 ^ n) = real_of_int k / 2 ^ n"
  unfolding float32_def by (rule to_precision_dyadic)

lemma double_error: "\<bar>double x - x\<bar> \<le> \<bar>x\<bar> / 2 ^ 53"
  unfolding double_def by (rule to_precision_error)

lemma double_zero [simp]: "double 0 = 0"
  by (simp add: double_def to_precision_def)

lemma float32_zero [simp]: "float32 0 = 0"
  by (simp add: float32_def to_precision_def)

text \<open>
  The value of \<open>double\<close> at a number whose binade is known: this evaluates the
  rounding of any rational.
\<close>

lemma powr_minus_nat: "2 powr (- real m) = 1 / 2 ^ m"
  by (simp add: powr_minus powr_realpow field_simps)

lemma binade_eq:
  assumes "2 powr real_of_int e \<le> \<bar>x\<bar>" and "\<bar>x\<bar> < 2 powr (real_of_int e + 1)"
  shows "binade x = e"
proof -
  have pos: "0 < \<bar>x\<bar>"
    using assms(1) by (smt (verit) powr_gt_zero)
  have "log 2 (2 powr real_of_int e) \<le> log 2 \<bar>x\<bar>"
    using assms(1) pos by (subst log_le_cancel_iff) simp_all
  then have lo: "real_of_int e \<le> log 2 \<bar>x\<bar>" by simp
  have "log 2 \<bar>x\<bar> < log 2 (2 powr (real_of_int e + 1))"
    using assms(2) pos by (subst log_less_cancel_iff) simp_all
  then have hi: "log 2 \<bar>x\<bar> < real_of_int e + 1" by simp
  show ?thesis
    unfolding binade_def using lo hi by (intro floor_unique) simp_all
qed

lemma double_between_halves:
  assumes "1 / 2 ^ n \<le> \<bar>x\<bar>" and "\<bar>x\<bar> < 2 / 2 ^ n"
  shows "double x = real_of_int (round_half_even (x * 2 ^ (52 + n))) / 2 ^ (52 + n)"
proof -
  have p: "2 powr real_of_int (- int n) = 1 / 2 ^ n"
    by (simp add: powr_minus powr_realpow field_simps)
  have q: "2 powr (real_of_int (- int n) + 1) = 2 / 2 ^ n"
  proof -
    have "2 powr (real_of_int (- int n) + 1) = 2 powr real_of_int (- int n) * 2 powr 1"
      by (rule powr_add)
    then show ?thesis unfolding p by simp
  qed
  have b: "binade x = - int n"
    by (rule binade_eq) (use assms p q in simp_all)
  have "(0::real) < 1 / 2 ^ n" by simp
  with assms(1) have "0 < \<bar>x\<bar>" by linarith
  then have x: "x \<noteq> 0" by simp
  have u: "ulp 53 x = 1 / 2 ^ (52 + n)"
  proof -
    have "ulp 53 x = 2 powr (- real (52 + n))"
      unfolding ulp_def b by (simp add: algebra_simps)
    also have "\<dots> = 1 / 2 ^ (52 + n)"
      by (rule powr_minus_nat)
    finally show ?thesis .
  qed
  show ?thesis
    unfolding double_def to_precision_def u using x by simp
qed

lemma double_between_powers:
  assumes "2 ^ n \<le> \<bar>x\<bar>" and "\<bar>x\<bar> < 2 * 2 ^ n" and "n \<le> 52"
  shows "double x = real_of_int (round_half_even (x * 2 ^ (52 - n))) / 2 ^ (52 - n)"
proof -
  have p: "2 powr real_of_int (int n) = 2 ^ n"
    by (simp add: powr_realpow)
  have q: "2 powr (real_of_int (int n) + 1) = 2 * 2 ^ n"
    by (simp add: powr_add powr_realpow)
  have b: "binade x = int n"
    by (rule binade_eq) (use assms p q in simp_all)
  have "(0::real) < 2 ^ n" by simp
  with assms(1) have "0 < \<bar>x\<bar>" by linarith
  then have x: "x \<noteq> 0" by simp
  have u: "ulp 53 x = 1 / 2 ^ (52 - n)"
  proof -
    have "ulp 53 x = 2 powr (- real (52 - n))"
      unfolding ulp_def b using assms(3) by (simp add: of_nat_diff)
    also have "\<dots> = 1 / 2 ^ (52 - n)"
      by (rule powr_minus_nat)
    finally show ?thesis .
  qed
  show ?thesis
    unfolding double_def to_precision_def u using x by simp
qed

lemma double_nonneg: "0 \<le> x \<Longrightarrow> 0 \<le> double x"
  using double_error[of x] by (simp add: abs_if field_simps split: if_splits)

lemma double_nonpos: "x \<le> 0 \<Longrightarrow> double x \<le> 0"
  using double_error[of x] by (simp add: abs_if field_simps split: if_splits)

lemma double_pos: "0 < x \<Longrightarrow> 0 < double x"
  using double_error[of x] by (simp add: abs_if field_simps split: if_splits)

lemma double_lower: "0 \<le> x \<Longrightarrow> x * (1 - 1 / 2 ^ 53) \<le> double x"
  using double_error[of x] by (simp add: abs_if field_simps split: if_splits)

lemma double_upper: "0 \<le> x \<Longrightarrow> double x \<le> x * (1 + 1 / 2 ^ 53)"
  using double_error[of x] by (simp add: abs_if field_simps split: if_splits)

text \<open>Rounding a rounded number changes nothing.\<close>

lemma round_half_even_le: "q \<le> real_of_int n \<Longrightarrow> round_half_even q \<le> n"
  unfolding round_half_even_def by (auto simp: not_less) linarith+

lemma round_half_even_ge: "real_of_int n \<le> q \<Longrightarrow> n \<le> round_half_even q"
  unfolding round_half_even_def by (auto simp: not_less) linarith+

lemma powr_int_add: "2 powr real_of_int (int p + j) = 2 ^ p * 2 powr real_of_int j"
proof -
  have "real_of_int (int p + j) = real p + real_of_int j" by simp
  then have "2 powr real_of_int (int p + j) = 2 powr real p * 2 powr real_of_int j"
    by (simp only: powr_add)
  then show ?thesis by (simp add: powr_realpow)
qed

lemma to_precision_idem:
  assumes "0 < p"
  shows "to_precision p (to_precision p x) = to_precision p x"
proof (cases "x = 0")
  case True
  then show ?thesis by (simp add: to_precision_def)
next
  case False
  let ?j = "binade x - (int p - 1)"
  let ?u = "ulp p x"
  let ?r = "round_half_even (x / ?u)"
  have u: "?u = 2 powr real_of_int ?j" by (simp add: ulp_def)
  have upos: "0 < ?u" by (rule ulp_pos)
  have y: "to_precision p x = real_of_int ?r * 2 powr real_of_int ?j"
    using False by (simp add: to_precision_def ulp_def)
  have "2 powr (real_of_int (binade x) + 1) = 2 ^ p * ?u"
  proof -
    have "real_of_int (binade x) + 1 = real p + real_of_int ?j" by simp
    then have "2 powr (real_of_int (binade x) + 1) = 2 powr real p * 2 powr real_of_int ?j"
      by (simp only: powr_add)
    then show ?thesis by (simp add: powr_realpow u)
  qed
  with binade_bounds(2)[OF False] have "\<bar>x\<bar> < 2 ^ p * ?u" by simp
  then have "\<bar>x\<bar> / ?u < 2 ^ p"
    using upos by (simp add: pos_divide_less_eq)
  then have "\<bar>x / ?u\<bar> < 2 ^ p"
    using upos by (simp add: abs_divide)
  then have "x / ?u \<le> real_of_int (2 ^ p)" "real_of_int (- (2 ^ p)) \<le> x / ?u"
    by (simp_all add: abs_if split: if_splits)
  then have r: "?r \<le> 2 ^ p" "- (2 ^ p) \<le> ?r"
    using round_half_even_le[of "x / ?u" "2 ^ p"] round_half_even_ge[of "- (2 ^ p)" "x / ?u"]
    by simp_all
  have one: "\<bar>1::int\<bar> < 2 ^ p" "\<bar>- 1::int\<bar> < 2 ^ p"
    using assms by simp_all
  consider "\<bar>?r\<bar> < 2 ^ p" | "?r = 2 ^ p" | "?r = - (2 ^ p)"
    using r by (cases "?r < 0") (force simp: abs_if)+
  then show ?thesis
  proof cases
    case 1
    show ?thesis
      by (rule to_precision_representable[OF y 1])
  next
    case 2
    have "to_precision p x = real_of_int 1 * 2 powr real_of_int (int p + ?j)"
      unfolding y 2 powr_int_add by simp
    then show ?thesis
      by (rule to_precision_representable[OF _ one(1)])
  next
    case 3
    have "to_precision p x = real_of_int (- 1) * 2 powr real_of_int (int p + ?j)"
      unfolding y 3 powr_int_add by simp
    then show ?thesis
      by (rule to_precision_representable[OF _ one(2)])
  qed
qed

lemma double_idem [simp]: "double (double x) = double x"
  unfolding double_def by (rule to_precision_idem) simp

lemma float32_idem [simp]: "float32 (float32 x) = float32 x"
  unfolding float32_def by (rule to_precision_idem) simp

lemma float32_error: "\<bar>float32 x - x\<bar> \<le> \<bar>x\<bar> / 2 ^ 24"
  unfolding float32_def by (rule to_precision_error)

lemma double_abs_lower: "0.999 * \<bar>x\<bar> \<le> \<bar>double x\<bar>"
  using double_error[of x] by (simp add: abs_if split: if_splits)

lemma float32_abs_lower: "0.999 * \<bar>x\<bar> \<le> \<bar>float32 x\<bar>"
  using float32_error[of x] by (simp add: abs_if split: if_splits)

lemma double_near_lower: "0 \<le> x \<Longrightarrow> 0.999 * x \<le> double x"
  using double_abs_lower[of x] double_nonneg[of x] by simp

lemma float32_near_lower: "0 \<le> x \<Longrightarrow> 0.999 * x \<le> float32 x"
  using float32_abs_lower[of x] float32_error[of x] by (simp add: abs_if split: if_splits)

section \<open>The aggregator in floating point\<close>

lemma exact_instance:
  "computeMean_fl (\<lambda>x. x) = computeMean"
  "computeStdDev_fl (\<lambda>x. x) = computeStdDev"
  "detectOutliers_fl (\<lambda>x. x) = detectOutliers"
  by (auto simp: fun_eq_iff computeMean_fl_def computeMean_def computeStdDev_fl_def
      computeStdDev_def detectOutliers_fl_def detectOutliers_def)

lemma assessConsensus_exact_instance: "assessConsensus_fl (\<lambda>x. x) = assessConsensus"
proof (intro ext)
  fix scores aggregated
  show "assessConsensus_fl (\<lambda>x. x) scores aggregated = assessConsensus scores aggregated"
    unfolding assessConsensus_fl_def assessConsensus_def exact_instance
    by (rule refl)
qed

lemma aggregate_exact_instance: "aggregate_fl (\<lambda>x. x) = aggregate"
proof (intro ext)
  fix verify reports options
  show "aggregate_fl (\<lambda>x. x) verify reports options = aggregate verify reports options"
    unfolding aggregate_fl_def aggregate_def exact_instance assessConsensus_exact_instance
    by (rule refl)
qed

lemma detectOutliers_fl_z_score:
  "detectOutliers_fl fl scores (computeMean_fl fl scores)
       (computeStdDev_fl fl scores (computeMean_fl fl scores)) t
     = map (\<lambda>s. z_score_fl fl scores s > t) scores"
  by (simp add: detectOutliers_fl_def z_score_fl_def Let_def)

lemma double_values:
  "double (- (5 / 2)) = - (5 / 2)"
  "double (- (5 / 8)) = - (5 / 8)"
  "double (- (1 / 2)) = - (1 / 2)"
  "double (- (1 / 8)) = - (1 / 8)"
  "double (1 / 64) = 1 / 64"
  "double (1 / 16) = 1 / 16"
  "double (1 / 8) = 1 / 8"
  "double (1 / 4) = 1 / 4"
  "double (25 / 64) = 25 / 64"
  "double (13 / 32) = 13 / 32"
  "double (27 / 64) = 27 / 64"
  "double (7 / 16) = 7 / 16"
  "double (29 / 64) = 29 / 64"
  "double (15 / 32) = 15 / 32"
  "double (31 / 64) = 31 / 64"
  "double (1 / 2) = 1 / 2"
  "double (3 / 4) = 3 / 4"
  "double 1 = 1"
  "double (3 / 2) = 3 / 2"
  "double (15 / 8) = 15 / 8"
  "double (11 / 4) = 11 / 4"
  "double (29 / 8) = 29 / 8"
  "double (9 / 2) = 9 / 2"
  "double (43 / 8) = 43 / 8"
  "double 6 = 6"
  using
    double_dyadic[of "- 5" 1]
    double_dyadic[of "- 5" 3]
    double_dyadic[of "- 1" 1]
    double_dyadic[of "- 1" 3]
    double_dyadic[of 1 6]
    double_dyadic[of 1 4]
    double_dyadic[of 1 3]
    double_dyadic[of 1 2]
    double_dyadic[of 25 6]
    double_dyadic[of 13 5]
    double_dyadic[of 27 6]
    double_dyadic[of 7 4]
    double_dyadic[of 29 6]
    double_dyadic[of 15 5]
    double_dyadic[of 31 6]
    double_dyadic[of 1 1]
    double_dyadic[of 3 2]
    double_dyadic[of 1 0]
    double_dyadic[of 3 1]
    double_dyadic[of 15 3]
    double_dyadic[of 11 2]
    double_dyadic[of 29 3]
    double_dyadic[of 9 1]
    double_dyadic[of 43 3]
    double_dyadic[of 6 0]
  by simp_all

lemma sqrt_sixteenth: "sqrt (1 / 16) = 1 / 4"
  by (rule real_sqrt_unique) (simp_all add: power2_eq_square)

lemma outlier_scores: "map confidenceScore outlier_reports
    = [1 / 8, 7 / 8, 7 / 8, 7 / 8, 7 / 8, 7 / 8, 7 / 8, 5 / 8]"
  by (simp add: outlier_reports_def sample_report_def)

lemma outlier_mean:
  "computeMean_fl double [1 / 8, 7 / 8, 7 / 8, 7 / 8, 7 / 8, 7 / 8, 7 / 8, 5 / 8] = 3 / 4"
  by (simp add: computeMean_fl_def double_values)

lemma outlier_stdDev:
  "computeStdDev_fl double [1 / 8, 7 / 8, 7 / 8, 7 / 8, 7 / 8, 7 / 8, 7 / 8, 5 / 8] (3 / 4) = 1 / 4"
  by (simp add: computeStdDev_fl_def double_values power2_eq_square sqrt_sixteenth)

lemma outlier_z_scores:
  "z_score_fl double [1 / 8, 7 / 8, 7 / 8, 7 / 8, 7 / 8, 7 / 8, 7 / 8, 5 / 8] (1 / 8) = 5 / 2"
  "z_score_fl double [1 / 8, 7 / 8, 7 / 8, 7 / 8, 7 / 8, 7 / 8, 7 / 8, 5 / 8] (7 / 8) = 1 / 2"
  "z_score_fl double [1 / 8, 7 / 8, 7 / 8, 7 / 8, 7 / 8, 7 / 8, 7 / 8, 5 / 8] (5 / 8) = 1 / 2"
  unfolding z_score_fl_def Let_def outlier_mean outlier_stdDev
  by (simp_all add: double_values)

lemma uniform_mean_fl: "computeMean_fl double [1 / 2, 1 / 2, 1 / 2] = 1 / 2"
  by (simp add: computeMean_fl_def double_values)

lemma uniform_stdDev_fl: "computeStdDev_fl double [1 / 2, 1 / 2, 1 / 2] (1 / 2) = 0"
  by (simp add: computeStdDev_fl_def double_values)

text \<open>
  Three scores of 0.7: the sum of three doubles and its third are rounded, the
  computed mean is one unit in the last place below the scores, and the computed
  standard deviation is \<open>2\<^sup>-\<^sup>5\<^sup>3\<close> instead of 0.
\<close>

lemma double_seven_tenths: "double (7 / 10) = 3152519739159347 / 4503599627370496"
  by (subst double_between_halves[of 1]) (simp_all add: round_half_even_def)

lemma equal_scores_roundings:
  "double (3152519739159347 / 4503599627370496) = 3152519739159347 / 4503599627370496"
  "double (3152519739159347 / 2251799813685248) = 3152519739159347 / 2251799813685248"
  "double (9457559217478041 / 4503599627370496) = 1182194902184755 / 562949953421312"
  "double (1182194902184755 / 1688849860263936) = 6305039478318693 / 9007199254740992"
  "double (1 / 9007199254740992) = 1 / 9007199254740992"
  "double (1 / 81129638414606681695789005144064) = 1 / 81129638414606681695789005144064"
  "double (1 / 40564819207303340847894502572032) = 1 / 40564819207303340847894502572032"
  "double (3 / 81129638414606681695789005144064) = 3 / 81129638414606681695789005144064"
proof -
  show "double (3152519739159347 / 4503599627370496) = 3152519739159347 / 4503599627370496"
    using double_dyadic[of 3152519739159347 52] by simp
  show "double (3152519739159347 / 2251799813685248) = 3152519739159347 / 2251799813685248"
    using double_dyadic[of 3152519739159347 51] by simp
  show "double (9457559217478041 / 4503599627370496) = 1182194902184755 / 562949953421312"
    by (subst double_between_powers[of 1]) (simp_all add: round_half_even_def)
  show "double (1182194902184755 / 1688849860263936) = 6305039478318693 / 9007199254740992"
    by (subst double_between_halves[of 1]) (simp_all add: round_half_even_def)
  show "double (1 / 9007199254740992) = 1 / 9007199254740992"
    using double_dyadic[of 1 53] by simp
  show "double (1 / 81129638414606681695789005144064) = 1 / 81129638414606681695789005144064"
    using double_dyadic[of 1 106] by simp
  show "double (1 / 40564819207303340847894502572032) = 1 / 40564819207303340847894502572032"
    using double_dyadic[of 1 105] by simp
  show "double (3 / 81129638414606681695789005144064) = 3 / 81129638414606681695789005144064"
    using double_dyadic[of 3 106] by simp
qed

lemma sqrt_tiny: "sqrt (1 / 81129638414606681695789005144064) = 1 / 9007199254740992"
  by (rule real_sqrt_unique) (simp_all add: power2_eq_square)

lemma equal_scores: "map confidenceScore equal_reports
    = [3152519739159347 / 4503599627370496, 3152519739159347 / 4503599627370496,
       3152519739159347 / 4503599627370496]"
  by (simp add: equal_reports_def sample_report_def double_seven_tenths)

lemma equal_mean:
  "computeMean_fl double [3152519739159347 / 4503599627370496, 3152519739159347 / 4503599627370496,
       3152519739159347 / 4503599627370496] = 6305039478318693 / 9007199254740992"
  by (simp add: computeMean_fl_def equal_scores_roundings)

lemma equal_stdDev:
  "computeStdDev_fl double [3152519739159347 / 4503599627370496, 3152519739159347 / 4503599627370496,
       3152519739159347 / 4503599627370496] (6305039478318693 / 9007199254740992)
     = 1 / 9007199254740992"
  by (simp add: computeStdDev_fl_def equal_scores_roundings power2_eq_square sqrt_tiny)

lemma equal_z_score:
  "z_score_fl double [3152519739159347 / 4503599627370496, 3152519739159347 / 4503599627370496,
       3152519739159347 / 4503599627370496] (3152519739159347 / 4503599627370496) = 1"
  unfolding z_score_fl_def Let_def equal_mean equal_stdDev
  by (simp add: equal_scores_roundings double_values)

section \<open>Claims about the outlier rule of ConfidenceAggregator.aggregate\<close>

text \<open>
  Claim C7, as stated: a report is flagged exactly when
  \<open>|score - mean| / stdDev > outlierThreshold\<close>, and with a standard deviation of 0 no
  report is flagged, for every input and threshold. With a negative threshold the
  second part fails: three equal scores of 0.5 have standard deviation 0, the code
  takes 0 as their z-score, and \<open>0 > -1\<close> flags all three. The evaluation is that of
  the source in double arithmetic.
\<close>

theorem aggregate_fl_negative_threshold_counterexample:
  "aggregate_fl double verify_nonempty uniform_reports negative_threshold_options =
     Inr \<lparr>aggregatedScore = 0, reportCount = 0, outlierCount = 3,
          standardDeviation = 0, consensusLevel = ConsensusLow,
          peerScores =
            [\<lparr>peerId = ''peer-1'', score = 0.5, included = False\<rparr>,
             \<lparr>peerId = ''peer-2'', score = 0.5, included = False\<rparr>,
             \<lparr>peerId = ''peer-3'', score = 0.5, included = False\<rparr>]\<rparr>"
proof -
  have surv: "verifyReportSignatures verify_nonempty uniform_reports = uniform_reports"
    by (simp add: verifyReportSignatures_filter uniform_reports_def signature_valid_def
        verify_nonempty_def sample_report_def)
  have scores: "map confidenceScore uniform_reports = [1 / 2, 1 / 2, 1 / 2]"
    by (simp add: uniform_reports_def sample_report_def)
  have m: "detectOutliers_fl double [1 / 2, 1 / 2, 1 / 2] (1 / 2) 0 (- 1) = [True, True, True]"
    by (simp add: detectOutliers_fl_def)
  have opts: "outlierThreshold negative_threshold_options = Some (- 1)"
    "minPeers negative_threshold_options = None"
    "verifySignatures negative_threshold_options = None"
    by (simp_all add: negative_threshold_options_def)
  have len: "length uniform_reports = 3"
    by (simp add: uniform_reports_def)
  show ?thesis
    unfolding aggregate_fl_def Let_def opts option.case len if_True surv scores
      uniform_mean_fl uniform_stdDev_fl m
    by (simp add: keep_unmasked_def computeMean_fl_def assessConsensus_fl_def
        uniform_reports_def sample_report_def)
qed

text \<open>
  Claim C7, amended: when \<open>aggregate\<close> returns, a surviving report is flagged exactly
  when its z-score is above the threshold, where the z-score is the one the code
  computes in its floating-point arithmetic: with the computed mean and the computed
  standard deviation of all surviving scores, it is the absolute value of the
  rounded quotient of the rounded difference \<open>score - mean\<close> by the standard deviation
  when the computed standard deviation is positive, and 0 when the computed standard
  deviation is 0; \<open>outlierCount\<close> counts the flagged reports; with a computed standard
  deviation of 0 and a threshold that is not negative, no report is flagged. This
  holds for every rounding function, in particular for the rounding of doubles.
\<close>

theorem aggregate_fl_outlier_rule:
  assumes "aggregate_fl fl verify reports options = Inr result"
  shows "map included (peerScores result)
           = map (\<lambda>s. \<not> z_score_fl fl (surviving_scores verify reports options) s
                            > threshold_of options)
               (surviving_scores verify reports options)
         \<and> outlierCount result
           = length (filter (\<lambda>s. z_score_fl fl (surviving_scores verify reports options) s
                                    > threshold_of options)
               (surviving_scores verify reports options))
         \<and> (computeStdDev_fl fl (surviving_scores verify reports options)
               (computeMean_fl fl (surviving_scores verify reports options)) = 0
             \<and> 0 \<le> threshold_of options \<longrightarrow> outlierCount result = 0)"
proof -
  let ?surv = "surviving_reports verify reports options"
  let ?scores = "surviving_scores verify reports options"
  let ?t = "threshold_of options"
  let ?mask = "map (\<lambda>s. z_score_fl fl ?scores s > ?t) ?scores"
  have surv: "(if verification_enabled options then verifyReportSignatures verify reports
               else reports) = ?surv"
    by (simp add: surviving_reports_def verifyReportSignatures_filter)
  have peers: "peerScores result
                 = map (\<lambda>(report, isOutlier). \<lparr>peerId = peerEphemeralId report,
                          score = confidenceScore report, included = (\<not> isOutlier)\<rparr>)
                     (zip ?surv ?mask)"
    and count: "outlierCount result = length (filter (\<lambda>isOutlier. isOutlier) ?mask)"
    using assms
    unfolding aggregate_fl_def Let_def
    by (auto simp: surviving_scores_def surviving_reports_def verifyReportSignatures_filter
        threshold_of_def verification_enabled_def detectOutliers_fl_z_score
        split: if_splits option.splits)
  have a: "map included (peerScores result) = map (\<lambda>s. \<not> z_score_fl fl ?scores s > ?t) ?scores"
    unfolding peers
    by (simp add: surviving_scores_def zip_map2 o_def split_def zip_same_conv_map)
  have b: "outlierCount result = length (filter (\<lambda>s. z_score_fl fl ?scores s > ?t) ?scores)"
    unfolding count by (simp add: filter_map o_def)
  have c: "outlierCount result = 0"
    if "computeStdDev_fl fl ?scores (computeMean_fl fl ?scores) = 0" and "0 \<le> ?t"
  proof -
    from that(1) have "z_score_fl fl ?scores s = 0" for s
      by (simp add: z_score_fl_def)
    with that(2) show ?thesis
      unfolding b by simp
  qed
  from a b c show ?thesis by blast
qed

text \<open>
  Three instances, all in double arithmetic. Of the eight reports the mean is 0.75
  and the standard deviation 0.25: the report with score 0.125 has z-score 2.5 and is
  flagged at the default threshold 2, the others have z-score 0.5 and are kept. The
  three equal scores of 0.7 have the computed standard deviation \<open>2\<^sup>-\<^sup>5\<^sup>3\<close> and the
  z-score 1: all three are flagged at the threshold 0.5. The three equal scores of
  0.5 have the computed standard deviation 0 and none is flagged.
\<close>

theorem aggregate_fl_outlier_rule_witness:
  "(\<exists>result. aggregate_fl double verify_nonempty outlier_reports no_options = Inr result
      \<and> map included (peerScores result) = [False, True, True, True, True, True, True, True]
      \<and> outlierCount result = 1)
   \<and> computeStdDev_fl double (surviving_scores verify_nonempty equal_reports half_threshold_options)
        (computeMean_fl double (surviving_scores verify_nonempty equal_reports half_threshold_options))
       = 1 / 2 ^ 53
   \<and> (\<exists>result. aggregate_fl double verify_nonempty equal_reports half_threshold_options = Inr result
      \<and> map included (peerScores result) = [False, False, False]
      \<and> outlierCount result = 3)
   \<and> computeStdDev_fl double (surviving_scores verify_nonempty uniform_reports no_options)
        (computeMean_fl double (surviving_scores verify_nonempty uniform_reports no_options)) = 0
   \<and> (\<exists>result. aggregate_fl double verify_nonempty uniform_reports no_options = Inr result
      \<and> map included (peerScores result) = [True, True, True]
      \<and> outlierCount result = 0)"
proof -
  have returns: "\<exists>result. aggregate_fl double verify_nonempty reports options = Inr result"
    if "\<not> real (length reports) < min_peers_of options" for reports options
    using that by (simp add: aggregate_fl_def Let_def min_peers_of_def split: option.splits)
  have half: "threshold_of half_threshold_options = 1 / 2" "min_peers_of half_threshold_options = 3"
    "verification_enabled half_threshold_options"
    by (simp_all add: half_threshold_options_def threshold_of_def min_peers_of_def
        verification_enabled_def)
  obtain r1 where r1: "aggregate_fl double verify_nonempty outlier_reports no_options = Inr r1"
    using returns[of outlier_reports no_options]
    by (auto simp: outlier_reports_def no_options_simps)
  obtain r2 where r2: "aggregate_fl double verify_nonempty equal_reports half_threshold_options = Inr r2"
    using returns[of equal_reports half_threshold_options]
    by (auto simp: equal_reports_def half)
  obtain r3 where r3: "aggregate_fl double verify_nonempty uniform_reports no_options = Inr r3"
    using returns[of uniform_reports no_options]
    by (auto simp: uniform_reports_def no_options_simps)
  have s1: "surviving_scores verify_nonempty outlier_reports no_options
                = [1 / 8, 7 / 8, 7 / 8, 7 / 8, 7 / 8, 7 / 8, 7 / 8, 5 / 8]"
    unfolding surviving_scores_def surviving_reports_def
    by (simp add: no_options_simps)
       (simp add: outlier_reports_def signature_valid_def verify_nonempty_def sample_report_def)
  have s2: "surviving_scores verify_nonempty equal_reports half_threshold_options
                = [3152519739159347 / 4503599627370496, 3152519739159347 / 4503599627370496,
                   3152519739159347 / 4503599627370496]"
    unfolding surviving_scores_def surviving_reports_def
    by (simp add: half)
       (simp add: equal_reports_def signature_valid_def verify_nonempty_def sample_report_def
          double_seven_tenths)
  have s3: "surviving_scores verify_nonempty uniform_reports no_options = [1 / 2, 1 / 2, 1 / 2]"
    unfolding surviving_scores_def surviving_reports_def
    by (simp add: no_options_simps)
       (simp add: uniform_reports_def signature_valid_def verify_nonempty_def sample_report_def)
  have sd2: "computeStdDev_fl double (surviving_scores verify_nonempty equal_reports half_threshold_options)
        (computeMean_fl double (surviving_scores verify_nonempty equal_reports half_threshold_options))
       = 1 / 2 ^ 53"
    unfolding s2 equal_mean equal_stdDev by simp
  have sd3: "computeStdDev_fl double (surviving_scores verify_nonempty uniform_reports no_options)
        (computeMean_fl double (surviving_scores verify_nonempty uniform_reports no_options)) = 0"
    unfolding s3 uniform_mean_fl uniform_stdDev_fl by (rule refl)
  from aggregate_fl_outlier_rule[OF r1]
  have a1: "map included (peerScores r1) = [False, True, True, True, True, True, True, True]"
    "outlierCount r1 = 1"
    unfolding s1 by (simp_all add: outlier_z_scores no_options_simps)
  from aggregate_fl_outlier_rule[OF r2]
  have a2: "map included (peerScores r2) = [False, False, False]" "outlierCount r2 = 3"
    unfolding s2 by (simp_all add: equal_z_score half)
  have z3: "z_score_fl double [1 / 2, 1 / 2, 1 / 2] s = 0" for s
    unfolding z_score_fl_def Let_def uniform_mean_fl uniform_stdDev_fl by simp
  from aggregate_fl_outlier_rule[OF r3]
  have a3: "map included (peerScores r3) = [True, True, True]" "outlierCount r3 = 0"
    unfolding s3 by (simp_all add: z3 no_options_simps)
  from r1 a1 have p1: "\<exists>result. aggregate_fl double verify_nonempty outlier_reports no_options = Inr result
      \<and> map included (peerScores result) = [False, True, True, True, True, True, True, True]
      \<and> outlierCount result = 1"
    by (intro exI[of _ r1]) simp
  from r2 a2 have p2: "\<exists>result. aggregate_fl double verify_nonempty equal_reports half_threshold_options = Inr result
      \<and> map included (peerScores result) = [False, False, False]
      \<and> outlierCount result = 3"
    by (intro exI[of _ r2]) simp
  from r3 a3 have p3: "\<exists>result. aggregate_fl double verify_nonempty uniform_reports no_options = Inr result
      \<and> map included (peerScores result) = [True, True, True]
      \<and> outlierCount result = 0"
    by (intro exI[of _ r3]) simp
  from p1 sd2 p2 sd3 p3 show ?thesis by (intro conjI)
qed

section \<open>Claims about MainsHumExtractor.extract\<close>

lemma length_bandpassFilter: "length (bandpassFilter data rate low high) = length data"
  by (simp add: bandpassFilter_def Let_def)

lemma extractFingerprint_too_short_iff:
  "(\<exists>e. extractFingerprint eng cfg computeHash now audioData rateArg = Inl (AudioTooShortError e))
     = (real (audio_length audioData) < double (effective_rate cfg rateArg * minDuration cfg))"
  by (auto simp: extractFingerprint_def effective_rate_def Let_def extractFingerprintVector_def
      split: option.splits sum.splits)

lemma extractFingerprint_too_short:
  assumes "real (audio_length audioData) < double (effective_rate cfg rateArg * minDuration cfg)"
  shows "extractFingerprint eng cfg computeHash now audioData rateArg
           = Inl (AudioTooShortError (minDuration cfg))"
  using assms by (simp add: extractFingerprint_def effective_rate_def Let_def)

lemma double_integers:
  "double (- 5) = - 5" "double 220500 = 220500" "double 500 = 500" "double 1 = 1"
  "double 110 = 110" "double 55 = 55" "double 50 = 50" "double 100 = 100" "double 200 = 200"
  using double_dyadic[of "- 5" 0] double_dyadic[of 220500 0] double_dyadic[of 500 0]
    double_dyadic[of 1 0] double_dyadic[of 110 0] double_dyadic[of 55 0] double_dyadic[of 50 0]
    double_dyadic[of 100 0] double_dyadic[of 200 0]
  by simp_all

lemma double_frames_negative: "double (- (4095 / 2048)) = - (4095 / 2048)"
  using double_dyadic[of "- 4095" 11] by simp

text \<open>
  Claim C8, as stated: \<open>extract\<close> raises the audio-too-short error exactly when
  \<open>samples.length / sampleRate < minDuration\<close>. The code tests
  \<open>samples.length < sampleRate * minDuration\<close>, which is another condition when the
  sample rate is negative. For one sample at the sample rate -1 the quotient is -1,
  which is below \<open>minDuration = 5\<close>, but the length 1 is not below the product -5:
  no audio-too-short error is raised. The call fails later with a \<^verbatim>\<open>RangeError\<close>,
  when \<^verbatim>\<open>new Float32Array(numFrames)\<close> is given \<open>numFrames = -2\<close>; this number
  is computed from the length of the filtered audio alone, so the samples that the
  filter produces from its empty window do not matter.
\<close>

theorem extractFingerprint_negative_rate_counterexample:
  "real (audio_length one_sample) / (- 1) < minDuration DEFAULT_FINGERPRINT_CONFIG
   \<and> extractFingerprint sample_engine DEFAULT_FINGERPRINT_CONFIG no_hash
        ''2024-01-01T00:00:00.000Z'' one_sample (Some (- 1)) = Inl RangeError"
  by (simp add: extractFingerprint_def extractFingerprintVector_def Let_def
      DEFAULT_FINGERPRINT_CONFIG_def one_sample_def double_integers double_frames_negative
      length_bandpassFilter)

text \<open>
  Claim C8, amended: \<open>extract\<close> raises the audio-too-short error exactly when
  \<open>samples.length < sampleRate * minDuration\<close>, where the product is the double that
  the code computes, and then its result is this error and no fingerprint. For a
  positive sample rate and a product that is computed without rounding error, this
  is the case exactly when \<open>samples.length / sampleRate < minDuration\<close>, the quotient
  taken as a real number. Every input of two seconds at 44100 Hz (88200 samples) is
  rejected with the default configuration (\<open>minDuration = 5\<close>).
\<close>

theorem extractFingerprint_too_short_rule:
  "((\<exists>e. extractFingerprint eng cfg computeHash now audioData rateArg = Inl (AudioTooShortError e))
       = (real (audio_length audioData) < double (effective_rate cfg rateArg * minDuration cfg)))
   \<and> (real (audio_length audioData) < double (effective_rate cfg rateArg * minDuration cfg)
        \<longrightarrow> extractFingerprint eng cfg computeHash now audioData rateArg
              = Inl (AudioTooShortError (minDuration cfg)))
   \<and> (0 < effective_rate cfg rateArg
        \<and> double (effective_rate cfg rateArg * minDuration cfg)
            = effective_rate cfg rateArg * minDuration cfg
        \<longrightarrow> (\<exists>e. extractFingerprint eng cfg computeHash now audioData rateArg
                     = Inl (AudioTooShortError e))
              = (real (audio_length audioData) / effective_rate cfg rateArg < minDuration cfg))
   \<and> (audio_length twoSeconds = 2 * 44100
        \<longrightarrow> extractFingerprint eng DEFAULT_FINGERPRINT_CONFIG computeHash now twoSeconds (Some 44100)
              = Inl (AudioTooShortError 5))"
proof -
  have c: "(\<exists>e. extractFingerprint eng cfg computeHash now audioData rateArg
                     = Inl (AudioTooShortError e))
              = (real (audio_length audioData) / effective_rate cfg rateArg < minDuration cfg)"
    if "0 < effective_rate cfg rateArg"
      and "double (effective_rate cfg rateArg * minDuration cfg)
            = effective_rate cfg rateArg * minDuration cfg"
    unfolding extractFingerprint_too_short_iff that(2)
    using that(1) by (simp add: pos_divide_less_eq mult.commute)
  have d: "extractFingerprint eng DEFAULT_FINGERPRINT_CONFIG computeHash now twoSeconds (Some 44100)
             = Inl (AudioTooShortError 5)" if "audio_length twoSeconds = 2 * 44100"
    using that
    by (simp add: extractFingerprint_def Let_def DEFAULT_FINGERPRINT_CONFIG_def double_integers)
  show ?thesis
    using extractFingerprint_too_short_iff[of eng cfg computeHash now audioData rateArg]
      extractFingerprint_too_short[of audioData cfg rateArg eng computeHash now] c d
    by blast
qed

theorem extractFingerprint_too_short_rule_witness:
  "real (audio_length two_seconds_of_silence) = 88200
   \<and> double (effective_rate DEFAULT_FINGERPRINT_CONFIG (Some 44100)
               * minDuration DEFAULT_FINGERPRINT_CONFIG) = 220500
   \<and> real (audio_length two_seconds_of_silence)
        / effective_rate DEFAULT_FINGERPRINT_CONFIG (Some 44100) = 2
   \<and> (\<exists>e. extractFingerprint sample_engine DEFAULT_FINGERPRINT_CONFIG no_hash
             ''2024-01-01T00:00:00.000Z'' two_seconds_of_silence (Some 44100)
           = Inl (AudioTooShortError e))
   \<and> extractFingerprint sample_engine DEFAULT_FINGERPRINT_CONFIG no_hash
        ''2024-01-01T00:00:00.000Z'' two_seconds_of_silence (Some 44100)
        = Inl (AudioTooShortError 5)"
proof -
  have len: "real (audio_length two_seconds_of_silence) = 88200"
    by (simp add: two_seconds_of_silence_def)
  have prod: "double (effective_rate DEFAULT_FINGERPRINT_CONFIG (Some 44100)
               * minDuration DEFAULT_FINGERPRINT_CONFIG) = 220500"
    by (simp add: effective_rate_def DEFAULT_FINGERPRINT_CONFIG_def double_integers)
  have q: "real (audio_length two_seconds_of_silence)
        / effective_rate DEFAULT_FINGERPRINT_CONFIG (Some 44100) = 2"
    by (simp add: effective_rate_def two_seconds_of_silence_def)
  have m: "minDuration DEFAULT_FINGERPRINT_CONFIG = 5"
    by (simp add: DEFAULT_FINGERPRINT_CONFIG_def)
  from extractFingerprint_too_short_rule
         [of sample_engine DEFAULT_FINGERPRINT_CONFIG no_hash "''2024-01-01T00:00:00.000Z''"
             two_seconds_of_silence "Some 44100"]
    len prod q m
  show ?thesis by simp
qed

section \<open>Claims about MainsHumExtractor.compare\<close>

text \<open>
  The loop of \<^verbatim>\<open>crossCorrelate\<close> keeps the first offset that attains the largest
  correlation. It ends with the offset 0 when the correlation at 0 is greater than
  the correlation at every negative offset and not smaller than the correlation at
  any positive offset.
\<close>

lemma correlate_fold_below:
  assumes "\<forall>k\<in>set ks. correlation_at v1 v2 k < c0"
    and "fst st = None \<or> (\<exists>x. fst st = Some x \<and> x < c0)"
  shows "fst (foldl (correlate_step v1 v2) st ks) = None
         \<or> (\<exists>x. fst (foldl (correlate_step v1 v2) st ks) = Some x \<and> x < c0)"
  using assms
proof (induction ks arbitrary: st)
  case Nil
  then show ?case by simp
next
  case (Cons k ks)
  have "fst (correlate_step v1 v2 st k) = None
        \<or> (\<exists>x. fst (correlate_step v1 v2 st k) = Some x \<and> x < c0)"
    using Cons.prems by (auto simp: correlate_step_def Let_def split: option.splits)
  then show ?case
    using Cons.IH[of "correlate_step v1 v2 st k"] Cons.prems(1) by simp
qed

lemma correlate_step_peak:
  assumes "fst st = None \<or> (\<exists>x. fst st = Some x \<and> x < correlation_at v1 v2 k)"
  shows "correlate_step v1 v2 st k = (Some (correlation_at v1 v2 k), k)"
  using assms by (auto simp: correlate_step_def Let_def)

lemma correlate_fold_keeps:
  assumes "\<forall>k\<in>set ks. correlation_at v1 v2 k \<le> c0"
  shows "foldl (correlate_step v1 v2) (Some c0, b) ks = (Some c0, b)"
  using assms by (induction ks) (simp_all add: correlate_step_def Let_def)

lemma upto_around_zero: "0 \<le> m \<Longrightarrow> [- m .. m] = [- m .. - 1] @ 0 # [1 .. m]"
  using upto_split3[of "- m" 0 m] by simp

lemma correlate_loop_peak_zero:
  assumes neg: "\<forall>k. - int (length v div 2) \<le> k \<and> k < 0
                  \<longrightarrow> correlation_at v v k < correlation_at v v 0"
    and pos: "\<forall>k. 0 < k \<and> k \<le> int (length v div 2)
                  \<longrightarrow> correlation_at v v k \<le> correlation_at v v 0"
  shows "correlate_loop v v = (Some (correlation_at v v 0), 0)"
proof -
  let ?m = "int (length v div 2)"
  let ?c0 = "correlation_at v v 0"
  let ?st = "foldl (correlate_step v v) (None, 0) [- ?m .. - 1]"
  have below: "fst ?st = None \<or> (\<exists>x. fst ?st = Some x \<and> x < ?c0)"
    by (rule correlate_fold_below) (use neg in auto)
  have peak: "correlate_step v v ?st 0 = (Some ?c0, 0)"
    by (rule correlate_step_peak[OF below])
  have keeps: "foldl (correlate_step v v) (Some ?c0, 0) [1 .. ?m] = (Some ?c0, 0)"
    by (rule correlate_fold_keeps) (use pos in auto)
  have "correlate_loop v v = foldl (correlate_step v v) (None, 0) ([- ?m .. - 1] @ 0 # [1 .. ?m])"
    unfolding correlate_loop_def Let_def by (subst upto_around_zero) simp_all
  also have "\<dots> = (Some ?c0, 0)"
    by (simp add: peak keeps)
  finally show ?thesis .
qed

lemma crossCorrelate_peak_zero:
  assumes "\<forall>k. - int (length v div 2) \<le> k \<and> k < 0
                  \<longrightarrow> correlation_at v v k < correlation_at v v 0"
    and "\<forall>k. 0 < k \<and> k \<le> int (length v div 2)
                  \<longrightarrow> correlation_at v v k \<le> correlation_at v v 0"
  shows "crossCorrelate v v = (correlation_at v v 0, 0)"
  by (simp add: crossCorrelate_def correlate_loop_peak_zero[OF assms])

text \<open>
  The cosine similarity of a vector with itself is the rounded quotient of the
  rounded sum of squares \<open>N\<close> by the rounded square root of the rounded \<open>N * N\<close>.
  Its distance from 1 is at most three relative rounding errors.
\<close>

lemma filter_upt_all: "filter (\<lambda>i. i < n) [0..<n] = [0..<n]"
  by (rule filter_True) simp

lemma correlation_at_self_zero:
  assumes "v \<noteq> []"
  shows "correlation_at v v 0 = double (sum_of_squares v / real (length v))"
  using assms by (simp add: correlation_at_def sum_of_squares_def Let_def filter_upt_all)

lemma alignVectors_zero:
  assumes "\<forall>x\<in>set v. float32 x = x"
  shows "alignVectors v 0 = v"
  using assms by (auto simp: alignVectors_def intro!: nth_equalityI)

lemma cosineSimilarity_self:
  "cosineSimilarity v v =
     (if js_sqrt (double (sum_of_squares v * sum_of_squares v)) > 0
      then double (sum_of_squares v / js_sqrt (double (sum_of_squares v * sum_of_squares v)))
      else 0)"
  by (simp add: cosineSimilarity_def sum_of_squares_def js_square_def Let_def)

lemma self_cosine_bound:
  fixes N e A M C :: real
  assumes N: "0 < N" and e: "0 \<le> e" "e \<le> 1 / 4"
    and A: "N * N * (1 - e) \<le> A" "A \<le> N * N * (1 + e)"
    and M: "sqrt A * (1 - e) \<le> M" "M \<le> sqrt A * (1 + e)"
    and C: "N / M * (1 - e) \<le> C"
  shows "0 < M" and "1 - 3 * e \<le> C"
proof -
  have e1: "0 < 1 - e" "0 < 1 + e" using e by simp_all
  have "0 < N * N * (1 - e)" using N e1 by simp
  with A(1) have Apos: "0 < A" by linarith
  then have Spos: "0 < sqrt A" by simp
  have "0 < sqrt A * (1 - e)" using Spos e1 by simp
  with M(1) show Mpos: "0 < M" by linarith
  have "A \<le> (N * (1 + e))\<^sup>2"
  proof -
    have "N * N * (1 + e) \<le> N * N * ((1 + e) * (1 + e))"
      using N e by (intro mult_left_mono) (simp_all add: algebra_simps)
    with A(2) show ?thesis by (simp add: power2_eq_square algebra_simps)
  qed
  then have S: "sqrt A \<le> N * (1 + e)"
    using N e1 by (intro real_le_lsqrt) simp_all
  have "M \<le> N * (1 + e) * (1 + e)"
    using M(2) mult_right_mono[OF S, of "1 + e"] e1 by linarith
  then have "N / (N * (1 + e) * (1 + e)) \<le> N / M"
    using N Mpos by (intro divide_left_mono) simp_all
  then have q: "1 / ((1 + e) * (1 + e)) \<le> N / M"
    using N by simp
  have "(1 - 3 * e) * ((1 + e) * (1 + e)) \<le> 1 - e"
  proof -
    have "(1 - 3 * e) * ((1 + e) * (1 + e)) = 1 - e - 5 * e * e - 3 * e * e * e"
      by (simp add: algebra_simps)
    moreover have "0 \<le> e * e" "0 \<le> e * e * e" using e by simp_all
    ultimately show ?thesis by linarith
  qed
  then have "1 - 3 * e \<le> (1 - e) / ((1 + e) * (1 + e))"
    using e1 by (simp add: pos_le_divide_eq)
  also have "\<dots> = 1 / ((1 + e) * (1 + e)) * (1 - e)" by simp
  also have "\<dots> \<le> N / M * (1 - e)"
    using q e1 by (intro mult_right_mono) simp_all
  also note C
  finally show "1 - 3 * e \<le> C" .
qed

lemma cosineSimilarity_self_lower:
  assumes "0 < sum_of_squares v"
  shows "1 - 3 / 2 ^ 53 \<le> cosineSimilarity v v"
proof -
  let ?N = "sum_of_squares v"
  let ?A = "double (?N * ?N)"
  let ?M = "js_sqrt ?A"
  have NN: "0 \<le> ?N * ?N" by simp
  have A: "?N * ?N * (1 - 1 / 2 ^ 53) \<le> ?A" "?A \<le> ?N * ?N * (1 + 1 / 2 ^ 53)"
    using double_lower[OF NN] double_upper[OF NN] by simp_all
  have S: "0 \<le> sqrt ?A"
    using double_nonneg[OF NN] by simp
  have M: "sqrt ?A * (1 - 1 / 2 ^ 53) \<le> ?M" "?M \<le> sqrt ?A * (1 + 1 / 2 ^ 53)"
    unfolding js_sqrt_def using double_lower[OF S] double_upper[OF S] by simp_all
  have Mpos: "0 < ?M"
    by (rule self_cosine_bound(1)[OF assms _ _ A M order_refl]) simp_all
  have q: "0 \<le> ?N / ?M" using assms Mpos by simp
  have C: "?N / ?M * (1 - 1 / 2 ^ 53) \<le> double (?N / ?M)"
    by (rule double_lower[OF q])
  have "1 - 3 * (1 / 2 ^ 53) \<le> double (?N / ?M)"
    by (rule self_cosine_bound(2)[OF assms _ _ A M C]) simp_all
  then show ?thesis
    unfolding cosineSimilarity_self using Mpos by simp
qed

lemma double_positive_arg: "0 < double x \<Longrightarrow> 0 < x"
  using double_nonpos[of x] by (cases "0 < x") simp_all

lemma self_similarity_bound:
  assumes c0: "0.9 + 1 / 10 ^ 15 \<le> c0" and C: "1 - 3 / 2 ^ 53 \<le> C"
  shows "0.95 \<le> double (double (c0 + C) / 2)"
proof -
  have s: "0 \<le> c0 + C" using c0 C by simp
  have X: "(c0 + C) * (1 - 1 / 2 ^ 53) \<le> double (c0 + C)"
    by (rule double_lower[OF s])
  have x: "0 \<le> double (c0 + C) / 2"
    using double_nonneg[OF s] by simp
  have Y: "double (c0 + C) / 2 * (1 - 1 / 2 ^ 53) \<le> double (double (c0 + C) / 2)"
    by (rule double_lower[OF x])
  show ?thesis
    using c0 C X Y by simp
qed

lemma double_literal_bounds:
  "double 0.85 \<le> 0.95" "double 0.85 > 0.75" "double 0.6 \<le> 0.75" "double 0.7 \<le> 0.75"
  using double_error[of "0.85"] double_error[of "0.6"] double_error[of "0.7"]
  by (simp_all add: abs_if split: if_splits)

lemma compare_self_unfold:
  assumes "crossCorrelate (vector fp) (vector fp) = (c0, 0)"
    and "alignVectors (vector fp) 0 = vector fp"
  shows "compare cfg fp fp =
     \<lparr>similarity = double (double (c0 + cosineSimilarity (vector fp) (vector fp)) / 2),
      correlation = c0,
      confidence = determineConfidence
                     (double (double (c0 + cosineSimilarity (vector fp) (vector fp)) / 2))
                     (extractionQuality fp) (extractionQuality fp),
      timeOffset = 0,
      proximityEstimate = estimateProximity
                     (double (double (c0 + cosineSimilarity (vector fp) (vector fp)) / 2)) 0\<rparr>"
  by (simp add: compare_def assms Let_def)

text \<open>
  The example vectors evaluated.
\<close>

lemma upto_m1_1: "[- 1 .. (1::int)] = [- 1, 0, 1]"
  by (simp add: upto.simps)

lemma upt_0_2: "[0..<2] = [0, 1]"
  by (simp add: upt_rec)

lemma double_small_values:
  "double 1 = 1" "double 2 = 2" "double (1 / 2) = 1 / 2" "double (3 / 2) = 3 / 2"
  "double (3 / 4) = 3 / 4" "double (31 / 32) = 31 / 32" "double (961 / 1024) = 961 / 1024"
  "double (1985 / 1024) = 1985 / 1024" "double (1985 / 2048) = 1985 / 2048"
  using double_dyadic[of 1 0] double_dyadic[of 2 0] double_dyadic[of 1 1] double_dyadic[of 3 1]
    double_dyadic[of 3 2] double_dyadic[of 31 5] double_dyadic[of 961 10]
    double_dyadic[of 1985 10] double_dyadic[of 1985 11]
  by simp_all

lemma float32_small_values: "float32 1 = 1" "float32 (31 / 32) = 31 / 32"
  using float32_dyadic[of 1 0] float32_dyadic[of 31 5] by simp_all

lemma correlation_at_0_1:
  "correlation_at [0, 1] [0, 1] (- 1) = 0"
  "correlation_at [0, 1] [0, 1] 0 = 1 / 2"
  "correlation_at [0, 1] [0, 1] 1 = 0"
  by (simp_all add: correlation_at_def Let_def upt_0_2 double_small_values)

lemma correlation_at_steady:
  "correlation_at [31 / 32, 1] [31 / 32, 1] (- 1) = 31 / 32"
  "correlation_at [31 / 32, 1] [31 / 32, 1] 0 = 1985 / 2048"
  "correlation_at [31 / 32, 1] [31 / 32, 1] 1 = 31 / 32"
  by (simp_all add: correlation_at_def Let_def upt_0_2 double_small_values)

lemma crossCorrelate_0_1: "crossCorrelate [0, 1] [0, 1] = (1 / 2, 0)"
  by (simp add: crossCorrelate_def correlate_loop_def correlate_step_def Let_def upto_m1_1
      correlation_at_0_1)

lemma cosineSimilarity_0_1: "cosineSimilarity [0, 1] [0, 1] = 1"
  by (simp add: cosineSimilarity_def js_square_def js_sqrt_def Let_def upt_0_2 double_small_values)

text \<open>
  For the vector \<open>[1, 1]\<close> the three correlations are equal and the loop returns the
  first offset, -1.
\<close>

lemma crossCorrelate_tie: "crossCorrelate [1, 1] [1, 1] = (1, - 1)"
  by (simp add: crossCorrelate_def correlate_loop_def correlate_step_def correlation_at_def
      Let_def upto_m1_1 upt_0_2 double_small_values)

text \<open>
  Claim C3, as stated: comparing a fingerprint with itself gives a similarity of at
  least 0.95 and the estimate \<open>same_location\<close>. The correlation of
  \<^verbatim>\<open>crossCorrelate\<close> is a mean of products that is not normalised, so it is small
  for a vector with small entries. For the vector \<open>[0, 1]\<close> the best offset is 0,
  the correlation is 0.5, the cosine similarity is 1, the similarity is 0.75 and the
  estimate is \<open>nearby\<close>.
\<close>

theorem compare_self_counterexample:
  "compare DEFAULT_FINGERPRINT_CONFIG (sample_fingerprint [0, 1]) (sample_fingerprint [0, 1])
     = \<lparr>similarity = 0.75, correlation = 0.5, confidence = ConfidenceHigh, timeOffset = 0,
        proximityEstimate = Nearby\<rparr>"
proof -
  have v: "vector (sample_fingerprint [0, 1]) = [0, 1]"
    "extractionQuality (sample_fingerprint [0, 1]) = 1"
    by (simp_all add: sample_fingerprint_def)
  have a: "alignVectors [0, 1] 0 = [0, 1]"
    by (rule alignVectors_zero) (simp add: float32_small_values)
  have cc: "crossCorrelate (vector (sample_fingerprint [0, 1])) (vector (sample_fingerprint [0, 1]))
              = (1 / 2, 0)"
    unfolding v by (rule crossCorrelate_0_1)
  have al: "alignVectors (vector (sample_fingerprint [0, 1])) 0 = vector (sample_fingerprint [0, 1])"
    unfolding v by (rule a)
  show ?thesis
    unfolding compare_self_unfold[OF cc al] v cosineSimilarity_0_1
    using double_literal_bounds
    by (simp add: determineConfidence_def estimateProximity_def double_small_values)
qed

text \<open>
  Claim C3, amended: for every fingerprint whose vector is not empty and holds
  single-precision numbers, as every \<^verbatim>\<open>Float32Array\<close> does, comparing the
  fingerprint with itself gives a similarity of at least 0.95 and the estimate
  \<open>same_location\<close>, provided that the correlation of the vector with itself at offset 0
  is greater than the one at every negative offset of the search range, not smaller
  than the one at any positive offset of the search range, and at least
  0.900000000000001. The correlations are the ones that \<^verbatim>\<open>crossCorrelate\<close> computes
  in double arithmetic (\<open>correlation_at\<close>: the rounded mean of the rounded products
  over the overlap of the vector with its shifted copy), and the search range of a
  vector of length \<open>n\<close> is \<open>-\<lfloor>n / 2\<rfloor>, \<dots>, \<lfloor>n / 2\<rfloor>\<close>. The inequality at the negative
  offsets is strict because the loop keeps the first offset that attains the
  maximum (lemma \<open>crossCorrelate_tie\<close>).
\<close>

theorem compare_self_when_peak_at_zero:
  assumes "vector fp \<noteq> []"
    and "\<forall>x\<in>set (vector fp). float32 x = x"
    and "\<forall>k. - int (length (vector fp) div 2) \<le> k \<and> k < 0
            \<longrightarrow> correlation_at (vector fp) (vector fp) k < correlation_at (vector fp) (vector fp) 0"
    and "\<forall>k. 0 < k \<and> k \<le> int (length (vector fp) div 2)
            \<longrightarrow> correlation_at (vector fp) (vector fp) k \<le> correlation_at (vector fp) (vector fp) 0"
    and "0.9 + 1 / 10 ^ 15 \<le> correlation_at (vector fp) (vector fp) 0"
  shows "similarity (compare cfg fp fp) \<ge> 0.95
         \<and> proximityEstimate (compare cfg fp fp) = SameLocation"
proof -
  let ?v = "vector fp"
  let ?c0 = "correlation_at ?v ?v 0"
  let ?sim = "double (double (?c0 + cosineSimilarity ?v ?v) / 2)"
  have cc: "crossCorrelate ?v ?v = (?c0, 0)"
    by (rule crossCorrelate_peak_zero[OF assms(3,4)])
  have al: "alignVectors ?v 0 = ?v"
    by (rule alignVectors_zero[OF assms(2)])
  have "0 < ?c0" using assms(5) by simp
  then have "0 < sum_of_squares ?v / real (length ?v)"
    unfolding correlation_at_self_zero[OF assms(1)] by (rule double_positive_arg)
  then have N: "0 < sum_of_squares ?v"
    using assms(1) by (simp add: zero_less_divide_iff)
  have sim: "0.95 \<le> ?sim"
    by (rule self_similarity_bound[OF assms(5) cosineSimilarity_self_lower[OF N]])
  have "estimateProximity ?sim 0 = SameLocation"
    using sim double_literal_bounds(1) by (simp add: estimateProximity_def)
  with sim show ?thesis
    unfolding compare_self_unfold[OF cc al] by simp
qed

theorem compare_self_when_peak_at_zero_witness:
  "vector steady_fingerprint = [31 / 32, 1]
   \<and> map float32 (vector steady_fingerprint) = vector steady_fingerprint
   \<and> correlation_at (vector steady_fingerprint) (vector steady_fingerprint) (- 1) = 31 / 32
   \<and> correlation_at (vector steady_fingerprint) (vector steady_fingerprint) 0 = 1985 / 2048
   \<and> correlation_at (vector steady_fingerprint) (vector steady_fingerprint) 1 = 31 / 32
   \<and> similarity (compare DEFAULT_FINGERPRINT_CONFIG steady_fingerprint steady_fingerprint) \<ge> 0.95
   \<and> proximityEstimate (compare DEFAULT_FINGERPRINT_CONFIG steady_fingerprint steady_fingerprint)
       = SameLocation"
proof -
  have v: "vector steady_fingerprint = [31 / 32, 1]"
    by (simp add: steady_fingerprint_def sample_fingerprint_def)
  have h1: "vector steady_fingerprint \<noteq> []"
    by (simp add: v)
  have h2: "\<forall>x\<in>set (vector steady_fingerprint). float32 x = x"
    by (simp add: v float32_small_values)
  have h3: "\<forall>k. - int (length (vector steady_fingerprint) div 2) \<le> k \<and> k < 0
            \<longrightarrow> correlation_at (vector steady_fingerprint) (vector steady_fingerprint) k
                < correlation_at (vector steady_fingerprint) (vector steady_fingerprint) 0"
  proof (intro allI impI)
    fix k :: int
    assume "- int (length (vector steady_fingerprint) div 2) \<le> k \<and> k < 0"
    then have "k = - 1" by (simp add: v)
    then show "correlation_at (vector steady_fingerprint) (vector steady_fingerprint) k
                < correlation_at (vector steady_fingerprint) (vector steady_fingerprint) 0"
      by (simp add: v correlation_at_steady)
  qed
  have h4: "\<forall>k. 0 < k \<and> k \<le> int (length (vector steady_fingerprint) div 2)
            \<longrightarrow> correlation_at (vector steady_fingerprint) (vector steady_fingerprint) k
                \<le> correlation_at (vector steady_fingerprint) (vector steady_fingerprint) 0"
  proof (intro allI impI)
    fix k :: int
    assume "0 < k \<and> k \<le> int (length (vector steady_fingerprint) div 2)"
    then have "k = 1" by (simp add: v)
    then show "correlation_at (vector steady_fingerprint) (vector steady_fingerprint) k
                \<le> correlation_at (vector steady_fingerprint) (vector steady_fingerprint) 0"
      by (simp add: v correlation_at_steady)
  qed
  have h5: "0.9 + 1 / 10 ^ 15 \<le> correlation_at (vector steady_fingerprint) (vector steady_fingerprint) 0"
    by (simp add: v correlation_at_steady)
  from compare_self_when_peak_at_zero[OF h1 h2 h3 h4 h5, of DEFAULT_FINGERPRINT_CONFIG]
  show ?thesis
    by (simp add: v correlation_at_steady float32_small_values)
qed

section \<open>Claims about the fingerprint vector\<close>

subsection \<open>Normalisation and sums with a single term\<close>

lemma normalize_constant:
  assumes "\<forall>a\<in>set v. \<forall>b\<in>set v. a = b"
  shows "normalize v = v"
proof (cases "v = []")
  case True
  then show ?thesis by (simp add: normalize_def)
next
  case False
  then have "Min (set v) \<in> set v" "Max (set v) \<in> set v"
    by simp_all
  with assms have "Max (set v) - Min (set v) = 0" by auto
  then show ?thesis by (simp add: normalize_def Let_def)
qed

lemma foldl_double_zeros:
  assumes "\<forall>t\<in>set ts. f t = 0" and "double a = a"
  shows "foldl (\<lambda>acc t. double (acc + f t)) a ts = a"
  using assms by (induction ts) simp_all

lemma upt_split_at: "j < n \<Longrightarrow> [0..<n] = [0..<j] @ j # [Suc j..<n]"
proof -
  assume j: "j < n"
  have "[0..<n] = [0..<j + (n - j)]" using j by simp
  also have "\<dots> = [0..<j] @ [j..<j + (n - j)]" by (rule upt_add_eq_append) simp
  also have "[j..<j + (n - j)] = j # [Suc j..<n]" using j by (simp add: upt_conv_Cons)
  finally show ?thesis .
qed

lemma foldl_double_single:
  assumes "j < n" and "\<forall>t<n. t \<noteq> j \<longrightarrow> f t = 0"
  shows "foldl (\<lambda>acc t. double (acc + f t)) 0 [0..<n] = double (f j)"
proof -
  have a: "foldl (\<lambda>acc t. double (acc + f t)) 0 [0..<j] = 0"
    by (rule foldl_double_zeros) (use assms in auto)
  have b: "foldl (\<lambda>acc t. double (acc + f t)) (double (f j)) [Suc j..<n] = double (f j)"
    by (rule foldl_double_zeros) (use assms in auto)
  show ?thesis
    unfolding upt_split_at[OF assms(1)] by (simp add: a b)
qed

lemma foldl_double_single_minus:
  assumes "j < n" and "\<forall>t<n. t \<noteq> j \<longrightarrow> f t = 0"
  shows "foldl (\<lambda>acc t. double (acc - f t)) 0 [0..<n] = double (- f j)"
  using foldl_double_single[OF assms(1), of "\<lambda>t. - f t"] assms(2) by simp

subsection \<open>The spectrum of a frame with a single sample\<close>

lemma length_concat_pairs: "length (concat (map (\<lambda>k. [f k, g k]) [0..<n])) = 2 * n"
  by (induction n) simp_all

lemma nth_concat_pairs:
  assumes "k < n"
  shows "concat (map (\<lambda>k. [f k, g k]) [0..<n]) ! (2 * k) = f k
         \<and> concat (map (\<lambda>k. [f k, g k]) [0..<n]) ! (2 * k + 1) = g k"
  using assms
proof (induction n)
  case 0
  then show ?case by simp
next
  case (Suc n)
  show ?case
  proof (cases "k < n")
    case True
    then have "2 * k < 2 * n" "2 * k + 1 < 2 * n" by simp_all
    with Suc.IH[OF True] show ?thesis
      by (simp add: nth_append length_concat_pairs)
  next
    case False
    with Suc.prems have "k = n" by simp
    then show ?thesis
      by (simp add: nth_append length_concat_pairs)
  qed
qed

lemma fft_nth:
  assumes "k < length xs"
  shows "fft eng xs ! (2 * k)
           = float32 (foldl (\<lambda>acc t. double (acc + double (xs ! t * math_cos eng (fft_angle k t (length xs)))))
                        0 [0..<length xs])"
    and "fft eng xs ! (2 * k + 1)
           = float32 (foldl (\<lambda>acc t. double (acc - double (xs ! t * math_sin eng (fft_angle k t (length xs)))))
                        0 [0..<length xs])"
proof -
  let ?f = "\<lambda>k. float32 (foldl (\<lambda>acc t. double (acc + double (xs ! t * math_cos eng (fft_angle k t (length xs)))))
                        0 [0..<length xs])"
  let ?g = "\<lambda>k. float32 (foldl (\<lambda>acc t. double (acc - double (xs ! t * math_sin eng (fft_angle k t (length xs)))))
                        0 [0..<length xs])"
  have eq: "fft eng xs = concat (map (\<lambda>k. [?f k, ?g k]) [0..<length xs])"
    unfolding fft_def Let_def by (rule refl)
  show "fft eng xs ! (2 * k) = ?f k"
    unfolding eq by (rule conjunct1[OF nth_concat_pairs[OF assms]])
  show "fft eng xs ! (2 * k + 1) = ?g k"
    unfolding eq by (rule conjunct2[OF nth_concat_pairs[OF assms]])
qed

lemma applyHammingWindow_nth:
  "i < length frame \<Longrightarrow>
     applyHammingWindow eng frame ! i = float32 (double (frame ! i * hamming eng (length frame) i))"
  by (simp add: applyHammingWindow_def hamming_def)

lemma length_applyHammingWindow: "length (applyHammingWindow eng frame) = length frame"
  by (simp add: applyHammingWindow_def)

lemma frame_magnitude_single_sample:
  assumes len: "fftWindowSize cfg \<le> length (drop (i * hopSize cfg) data)"
    and j: "j < fftWindowSize cfg"
    and zero: "\<forall>t<fftWindowSize cfg. t \<noteq> j \<longrightarrow> data ! (i * hopSize cfg + t) = 0"
    and k: "k < fftWindowSize cfg"
  shows "frame_magnitude eng cfg data (int k) i
           = (let w = float32 (double (data ! (i * hopSize cfg + j) * hamming eng (fftWindowSize cfg) j))
              in js_sqrt (double
                   (js_square (float32 (double (w * math_cos eng (fft_angle k j (fftWindowSize cfg)))))
                    + js_square (float32 (double (- double
                        (w * math_sin eng (fft_angle k j (fftWindowSize cfg)))))))))"
proof -
  let ?W = "fftWindowSize cfg"
  let ?frame = "take ?W (drop (i * hopSize cfg) data)"
  let ?w = "applyHammingWindow eng ?frame"
  have len': "?W \<le> length data - i * hopSize cfg" using len by simp
  have lf: "length ?frame = ?W" using len' by (simp add: min_def)
  have lw: "length ?w = ?W" unfolding length_applyHammingWindow by (rule lf)
  have fr: "?frame ! t = data ! (i * hopSize cfg + t)" if "t < ?W" for t
    using that len' by (simp add: min_def)
  have wt: "?w ! t = float32 (double (?frame ! t * hamming eng ?W t))" if "t < ?W" for t
    using applyHammingWindow_nth[of t ?frame eng] that unfolding lf by simp
  have w0: "?w ! t = 0" if "t < ?W" and "t \<noteq> j" for t
    using wt[OF that(1)] fr[OF that(1)] zero that by simp
  have wz: "\<forall>t<?W. t \<noteq> j \<longrightarrow> double (?w ! t * c t) = 0" for c :: "nat \<Rightarrow> real"
    using w0 by simp
  have wj: "?w ! j = float32 (double (data ! (i * hopSize cfg + j) * hamming eng ?W j))"
    using wt[OF j] fr[OF j] by simp
  have re: "fft eng ?w ! (2 * k) = float32 (double (?w ! j * math_cos eng (fft_angle k j ?W)))"
    using fft_nth(1)[of k ?w eng] k
      foldl_double_single[OF j wz[of "\<lambda>t. math_cos eng (fft_angle k t ?W)"]]
    by (simp add: lw)
  have im: "fft eng ?w ! (2 * k + 1)
              = float32 (double (- double (?w ! j * math_sin eng (fft_angle k j ?W))))"
    using fft_nth(2)[of k ?w eng] k
      foldl_double_single_minus[OF j wz[of "\<lambda>t. math_sin eng (fft_angle k t ?W)"]]
    by (simp add: lw)
  have idx: "nat (int k * 2) = 2 * k" "nat (int k * 2 + 1) = 2 * k + 1"
    by simp_all
  show ?thesis
    unfolding frame_magnitude_def Let_def idx re im wj by (rule refl)
qed

subsection \<open>A lower bound for the magnitude\<close>

text \<open>
  With a cosine and a sine that are within 0.001 of the true values, the window
  factor is at least 0.079 and the squares of the two parts of a bin add up to at
  least 0.99 times the square of the sample; every rounding keeps at least 0.999 of
  its argument.
\<close>

lemma engine_cos_upper:
  fixes c x :: real
  assumes "\<bar>c - cos x\<bar> \<le> 1 / 1000"
  shows "c \<le> 1001 / 1000"
proof -
  have "cos x \<le> 1" by (rule cos_le_one)
  with assms show ?thesis by linarith
qed

lemma engine_accuracy:
  fixes c s x :: real
  assumes "\<bar>c - cos x\<bar> \<le> 1 / 1000" and "\<bar>s - sin x\<bar> \<le> 1 / 1000"
  shows "99 / 100 \<le> c * c + s * s"
proof -
  define d where "d = c - cos x"
  define e where "e = s - sin x"
  have c: "c * c = cos x * cos x + 2 * (d * cos x) + d * d"
    by (simp add: d_def algebra_simps)
  have s: "s * s = sin x * sin x + 2 * (e * sin x) + e * e"
    by (simp add: e_def algebra_simps)
  have dc: "\<bar>d * cos x\<bar> \<le> 1 / 1000 * 1"
    unfolding abs_mult using assms(1) abs_cos_le_one[of x]
    by (intro mult_mono) (simp_all add: d_def)
  have es: "\<bar>e * sin x\<bar> \<le> 1 / 1000 * 1"
    unfolding abs_mult using assms(2) abs_sin_le_one[of x]
    by (intro mult_mono) (simp_all add: e_def)
  have sq: "0 \<le> d * d" "0 \<le> e * e" by simp_all
  have one: "sin x * sin x + cos x * cos x = 1"
    using sin_cos_squared_add[of x] by (simp add: power2_eq_square)
  show ?thesis
    unfolding c s using dc es sq one by linarith
qed

lemma hamming_factor_lower:
  assumes "c \<le> 1001 / 1000"
  shows "79 / 1000 \<le> double (double 0.54 - double (double 0.46 * c))"
proof -
  have d46: "0 \<le> double 0.46" "double 0.46 \<le> 0.46001"
    using double_error[of "0.46"] by (simp_all add: abs_if split: if_splits)
  have d54: "0.53999 \<le> double 0.54"
    using double_error[of "0.54"] by (simp add: abs_if split: if_splits)
  have y: "double 0.46 * c \<le> 0.46001 * 1.001"
  proof (cases "0 \<le> c")
    case True
    then show ?thesis using d46 assms by (intro mult_mono) simp_all
  next
    case False
    then have "double 0.46 * c \<le> 0" using d46(1) by (simp add: mult_le_0_iff)
    then show ?thesis by simp
  qed
  have dy: "double (double 0.46 * c) \<le> 0.4605"
  proof (cases "0 \<le> double 0.46 * c")
    case True
    from double_upper[OF True] y show ?thesis by simp
  next
    case False
    then have "double (double 0.46 * c) \<le> 0" by (intro double_nonpos) simp
    then show ?thesis by simp
  qed
  have z: "0.0794 \<le> double 0.54 - double (double 0.46 * c)"
    using d54 dy by simp
  then have "0 \<le> double 0.54 - double (double 0.46 * c)" by simp
  from double_near_lower[OF this] z show ?thesis by simp
qed

lemma hamming_lower:
  assumes "\<forall>x. \<bar>math_cos eng x - cos x\<bar> \<le> 1 / 1000"
  shows "79 / 1000 \<le> hamming eng n i"
  unfolding hamming_def
  by (rule hamming_factor_lower) (rule engine_cos_upper[OF spec[OF assms]])

lemma double_abs_lower_frac: "999 / 1000 * \<bar>x\<bar> \<le> \<bar>double x\<bar>"
  using double_abs_lower[of x] by simp

lemma float32_abs_lower_frac: "999 / 1000 * \<bar>x\<bar> \<le> \<bar>float32 x\<bar>"
  using float32_abs_lower[of x] by simp

lemma double_near_lower_frac: "0 \<le> x \<Longrightarrow> 999 / 1000 * x \<le> double x"
  using double_near_lower[of x] by simp

lemma float32_near_lower_frac: "0 \<le> x \<Longrightarrow> 999 / 1000 * x \<le> float32 x"
  using float32_near_lower[of x] by simp

lemma square_lower:
  fixes a x q :: real
  assumes "q * \<bar>x\<bar> \<le> \<bar>a\<bar>" and "0 \<le> q"
  shows "q * q * (x * x) \<le> a * a"
proof -
  have "\<bar>q * x\<bar> \<le> \<bar>a\<bar>" using assms by (simp add: abs_mult)
  then have "(q * x)\<^sup>2 \<le> a\<^sup>2" by (simp only: abs_le_square_iff)
  then show ?thesis by (simp add: power2_eq_square algebra_simps)
qed

lemma scale_lower:
  fixes q x d lo r :: real
  assumes "q * x \<le> d" and "lo \<le> x" and "0 \<le> q" and "r \<le> q * lo"
  shows "r \<le> d"
proof -
  have "q * lo \<le> q * x" using assms(2,3) by (rule mult_left_mono)
  with assms(1,4) show ?thesis by linarith
qed

lemma magnitude_lower:
  fixes w C S :: real
  assumes w: "39 / 10 \<le> w" and cs: "99 / 100 \<le> C * C + S * S"
  shows "3 < float32 (js_sqrt (double (js_square (float32 (double (w * C)))
                                     + js_square (float32 (double (- double (w * S)))))))"
proof -
  let ?a = "float32 (double (w * C))"
  let ?b = "float32 (double (- double (w * S)))"
  let ?s = "js_square ?a + js_square ?b"
  have "998 / 1000 * \<bar>w * C\<bar> \<le> \<bar>?a\<bar>"
    using float32_abs_lower_frac[of "double (w * C)"] double_abs_lower_frac[of "w * C"]
    by linarith
  from square_lower[OF this]
  have a: "998 / 1000 * (998 / 1000) * (w * C * (w * C)) \<le> ?a * ?a" by simp
  have "\<bar>- double (w * S)\<bar> = \<bar>double (w * S)\<bar>" by simp
  then have "997 / 1000 * \<bar>w * S\<bar> \<le> \<bar>?b\<bar>"
    using float32_abs_lower_frac[of "double (- double (w * S))"]
      double_abs_lower_frac[of "- double (w * S)"] double_abs_lower_frac[of "w * S"]
    by linarith
  from square_lower[OF this]
  have b: "997 / 1000 * (997 / 1000) * (w * S * (w * S)) \<le> ?b * ?b" by simp
  have nn: "0 \<le> w * C * (w * C)" "0 \<le> w * S * (w * S)" by simp_all
  have "1521 / 100 * (99 / 100) \<le> w * w * (C * C + S * S)"
  proof (intro mult_mono)
    have "39 / 10 * (39 / 10) \<le> w * w"
      using w by (intro mult_mono) simp_all
    then show "1521 / 100 \<le> w * w" by simp
  qed (use cs in simp_all)
  also have "w * w * (C * C + S * S) = w * C * (w * C) + w * S * (w * S)"
    by (simp add: algebra_simps)
  finally have "149 / 10 \<le> ?a * ?a + ?b * ?b"
    using a b nn by linarith
  moreover have "999 / 1000 * (?a * ?a) \<le> js_square ?a" "999 / 1000 * (?b * ?b) \<le> js_square ?b"
    unfolding js_square_def by (rule double_near_lower_frac, simp)+
  ultimately have s: "148 / 10 \<le> ?s" by linarith
  then have "0 \<le> ?s" by linarith
  from double_near_lower_frac[OF this] s have d: "147 / 10 \<le> double ?s"
    by (rule scale_lower) simp_all
  have "38 / 10 \<le> sqrt (double ?s)"
    by (rule real_le_rsqrt) (use d in \<open>simp add: power2_eq_square\<close>)
  moreover have "0 \<le> sqrt (double ?s)" using d by simp
  ultimately have m: "379 / 100 \<le> js_sqrt (double ?s)"
    unfolding js_sqrt_def using double_near_lower_frac[of "sqrt (double ?s)"]
    by (intro scale_lower[of "999 / 1000" "sqrt (double ?s)" "double (sqrt (double ?s))" "38 / 10" "379 / 100"])
       simp_all
  then have "0 \<le> js_sqrt (double ?s)" by linarith
  from float32_near_lower_frac[OF this] m have "378 / 100 \<le> float32 (js_sqrt (double ?s))"
    by (rule scale_lower) simp_all
  then show ?thesis by linarith
qed

lemma window_sample_lower:
  assumes "79 / 1000 \<le> h"
  shows "39 / 10 \<le> float32 (double (50 * h))"
proof -
  have p: "0 \<le> 50 * h" "395 / 100 \<le> 50 * h" using assms by simp_all
  from double_near_lower_frac[OF p(1)] p(2) have d: "394 / 100 \<le> double (50 * h)"
    by (rule scale_lower) simp_all
  then have "0 \<le> double (50 * h)" by linarith
  from float32_near_lower_frac[OF this] d show ?thesis
    by (rule scale_lower) simp_all
qed

subsection \<open>The step audio at 100 Hz\<close>

lemma double_some_integers:
  "double 50 = 50" "double 55 = 55" "double 100 = 100" "double 110 = 110" "double 200 = 200"
  "double 500 = 500" "double 2048 = 2048" "double 1 = 1" "double (25 / 1024) = 25 / 1024"
  using double_dyadic[of 50 0] double_dyadic[of 55 0] double_dyadic[of 100 0]
    double_dyadic[of 110 0] double_dyadic[of 200 0] double_dyadic[of 500 0]
    double_dyadic[of 2048 0] double_dyadic[of 1 0] double_dyadic[of 25 10]
  by simp_all

lemma float32_fifty: "float32 50 = 50"
  using float32_dyadic[of 50 0] by simp

lemma step_window: "\<lfloor>double (100 / double (double (45 + 65) / 2))\<rfloor> = 1"
proof -
  have e: "double (100 / double (double (45 + 65) / 2)) = double (20 / 11)"
    by (simp add: double_some_integers)
  have p: "(0::real) \<le> 20 / 11" by simp
  have "1 \<le> double (20 / 11)" "double (20 / 11) < 2"
    using double_lower[OF p] double_upper[OF p] by simp_all
  then show ?thesis
    unfolding e by (intro floor_unique) simp_all
qed

lemma upto_pair: "[a - 1 .. a] = [a - 1, a :: int]"
  by (simp add: upto_rec1)

lemma bandpassFilter_nth:
  assumes "i < length data"
  shows "bandpassFilter data rate low high ! i
           = (let w = \<lfloor>double (rate / double (double (low + high) / 2))\<rfloor>;
                  js = [max 0 (int i - w) .. min (int (length data)) (int i + w) - 1]
              in float32 (double (data ! i
                   - double (foldl (\<lambda>acc j. double (acc + data ! nat j)) 0 js / real (length js)))))"
  using assms by (simp add: bandpassFilter_def Let_def)

lemma bandpassFilter_window_one:
  assumes "\<lfloor>double (rate / double (double (low + high) / 2))\<rfloor> = 1" and "i < length data"
  shows "bandpassFilter data rate low high ! i
           = (if i = 0 then float32 (double (data ! 0 - double (double (data ! 0) / 1)))
              else float32 (double (data ! i
                     - double (double (double (data ! (i - 1)) + data ! i) / 2))))"
proof (cases "i = 0")
  case True
  have "1 \<le> int (length data)"
    using assms(2) by linarith
  then have "min (int (length data)) (int i + 1) - 1 = 0" "max 0 (int i - 1) = 0"
    using True by (simp_all add: min_def)
  then have js: "[max 0 (int i - 1) .. min (int (length data)) (int i + 1) - 1] = [0]"
    by simp
  show ?thesis
    unfolding bandpassFilter_nth[OF assms(2)] Let_def assms(1) js
    using True by simp
next
  case False
  have "int i + 1 \<le> int (length data)" "1 \<le> int i"
    using False assms(2) by linarith+
  then have "min (int (length data)) (int i + 1) - 1 = int i" "max 0 (int i - 1) = int i - 1"
    by (simp_all add: min_def max_def)
  then have js: "[max 0 (int i - 1) .. min (int (length data)) (int i + 1) - 1] = [int i - 1, int i]"
    by (simp add: upto_pair)
  have "nat (int i - 1) = i - 1" by simp
  then show ?thesis
    unfolding bandpassFilter_nth[OF assms(2)] Let_def assms(1) js
    using False by simp
qed

lemma filtered_step_nth:
  assumes "i < Suc n"
  shows "bandpassFilter (0 # replicate n 100) 100 45 65 ! i = (if i = 1 then 50 else 0)"
proof -
  have "(0 # replicate n 100) ! i = (if i = 0 then 0 else (100::real))"
    using assms by (cases i) simp_all
  moreover have "(0 # replicate n 100) ! (i - 1) = (if i \<le> 1 then 0 else (100::real))"
    using assms by (cases i) (simp_all add: nth_Cons split: nat.splits)
  ultimately show ?thesis
    using bandpassFilter_window_one[OF step_window, of i "0 # replicate n 100"] assms
    by (simp add: double_some_integers float32_fifty split: if_splits)
qed

lemma detectMainsFrequency_50_or_60:
  "detectMainsFrequency eng data rate = 50 \<or> detectMainsFrequency eng data rate = 60"
  by (simp add: detectMainsFrequency_def Let_def split_def)

lemma target_bin_at_100:
  "\<exists>k<4096. round (double (detectMainsFrequency eng data 100 / double (100 / real (4096::nat))))
              = int k"
proof -
  have r: "double (100 / real (4096::nat)) = 25 / 1024"
    by (simp add: double_some_integers)
  have "round (double (50 / (25 / 1024))) = int 2048"
    by (simp add: double_some_integers)
  moreover have "round (double (60 / (25 / 1024))) = int 2458"
  proof -
    have p: "(0::real) \<le> 60 / (25 / 1024)" by simp
    have "2457.5 \<le> double (60 / (25 / 1024))" "double (60 / (25 / 1024)) < 2458.5"
      using double_lower[OF p] double_upper[OF p] by simp_all
    then show ?thesis
      unfolding round_def by (intro floor_unique) simp_all
  qed
  ultimately show ?thesis
    unfolding r using detectMainsFrequency_50_or_60[of eng data 100]
    by (auto intro: exI[of _ 2048] exI[of _ 2458])
qed

lemma default_config_fields:
  "fftWindowSize DEFAULT_FINGERPRINT_CONFIG = 4096" "hopSize DEFAULT_FINGERPRINT_CONFIG = 2048"
  "lowCutoff DEFAULT_FINGERPRINT_CONFIG = 45" "highCutoff DEFAULT_FINGERPRINT_CONFIG = 65"
  "minDuration DEFAULT_FINGERPRINT_CONFIG = 5" "sampleRate DEFAULT_FINGERPRINT_CONFIG = 44100"
  by (simp_all add: DEFAULT_FINGERPRINT_CONFIG_def)

lemma step_frame_magnitude:
  assumes cos: "\<forall>x. \<bar>math_cos eng x - cos x\<bar> \<le> 1 / 1000"
    and sin: "\<forall>x. \<bar>math_sin eng x - sin x\<bar> \<le> 1 / 1000"
    and n: "4096 \<le> n" and k: "k < 4096"
  shows "3 < float32 (frame_magnitude eng DEFAULT_FINGERPRINT_CONFIG
                        (bandpassFilter (0 # replicate n 100) 100 45 65) (int k) 0)"
proof -
  let ?f = "bandpassFilter (0 # replicate n 100) 100 45 65"
  have len: "fftWindowSize DEFAULT_FINGERPRINT_CONFIG
               \<le> length (drop (0 * hopSize DEFAULT_FINGERPRINT_CONFIG) ?f)"
    using n by (simp add: default_config_fields length_bandpassFilter)
  have j: "1 < fftWindowSize DEFAULT_FINGERPRINT_CONFIG"
    by (simp add: default_config_fields)
  have zero: "\<forall>t<fftWindowSize DEFAULT_FINGERPRINT_CONFIG. t \<noteq> 1 \<longrightarrow>
                ?f ! (0 * hopSize DEFAULT_FINGERPRINT_CONFIG + t) = 0"
    using n by (simp add: default_config_fields filtered_step_nth)
  have k': "k < fftWindowSize DEFAULT_FINGERPRINT_CONFIG"
    using k by (simp add: default_config_fields)
  have one: "?f ! (0 * hopSize DEFAULT_FINGERPRINT_CONFIG + 1) = 50"
    using n by (simp add: filtered_step_nth)
  have w: "39 / 10 \<le> float32 (double (50 * hamming eng 4096 1))"
    by (rule window_sample_lower[OF hamming_lower[OF cos]])
  have cs: "99 / 100 \<le> math_cos eng (fft_angle k 1 4096) * math_cos eng (fft_angle k 1 4096)
                        + math_sin eng (fft_angle k 1 4096) * math_sin eng (fft_angle k 1 4096)"
    by (rule engine_accuracy[OF spec[OF cos] spec[OF sin]])
  have "frame_magnitude eng DEFAULT_FINGERPRINT_CONFIG ?f (int k) 0
          = js_sqrt (double
              (js_square (float32 (double (float32 (double (50 * hamming eng 4096 1))
                                           * math_cos eng (fft_angle k 1 4096))))
               + js_square (float32 (double (- double
                   (float32 (double (50 * hamming eng 4096 1))
                    * math_sin eng (fft_angle k 1 4096)))))))"
    unfolding frame_magnitude_single_sample[OF len j zero k'] one Let_def
    unfolding default_config_fields by (rule refl)
  then show ?thesis
    using magnitude_lower[OF w cs] by simp
qed

text \<open>
  Claim C5: every element of the fingerprint vector that \<open>extract\<close> returns lies in
  \<open>[0, 1]\<close>. The code does not ensure this. \<^verbatim>\<open>normalize\<close> returns its argument
  unchanged when the largest and the smallest magnitude are equal, and they are
  whenever there is a single frame. With the default configuration, a sample rate of
  100 Hz and 6144 samples there is one frame. For the step audio the filtered signal
  has the single non-zero sample 50 at index 1, the magnitude of the frame is about
  \<open>50 * (0.54 - 0.46 * cos (2 * pi / 4095))\<close>, which is about 4.00003, and the vector
  holds this number. Below, for every engine whose \<^verbatim>\<open>Math.cos\<close> and \<^verbatim>\<open>Math.sin\<close>
  are within 0.001 of the cosine and the sine, \<open>extract\<close> returns a fingerprint whose
  vector has exactly one element, and this element is greater than 3.
\<close>

theorem extract_step_audio_not_normalized:
  assumes "\<forall>x. \<bar>math_cos eng x - cos x\<bar> \<le> 1 / 1000"
    and "\<forall>x. \<bar>math_sin eng x - sin x\<bar> \<le> 1 / 1000"
  shows "\<exists>fp x. extractFingerprint eng DEFAULT_FINGERPRINT_CONFIG computeHash now step_audio (Some 100)
                   = Inr fp
                 \<and> vector fp = [x] \<and> 3 < x"
proof -
  let ?f = "bandpassFilter (0 # replicate 6143 100) 100 45 65"
  let ?mains = "detectMainsFrequency eng ?f 100"
  obtain k where k: "k < 4096"
      and tb: "round (double (?mains / double (100 / real (4096::nat)))) = int k"
    using target_bin_at_100[of eng ?f] by blast
  define x where "x = float32 (frame_magnitude eng DEFAULT_FINGERPRINT_CONFIG ?f (int k) 0)"
  have n: "\<lfloor>double ((real (length ?f) - real (4096::nat)) / real (2048::nat))\<rfloor> = 1"
    by (simp add: length_bandpassFilter double_some_integers)
  have norm: "normalize [m] = [m]" for m
    by (rule normalize_constant) simp
  have vec: "extractFingerprintVector eng DEFAULT_FINGERPRINT_CONFIG ?f 100 ?mains = Inr [x]"
    unfolding extractFingerprintVector_def Let_def default_config_fields n tb
    unfolding x_def by (simp add: norm)
  have guard: "\<not> real (audio_length step_audio) < double (100 * minDuration DEFAULT_FINGERPRINT_CONFIG)"
    by (simp add: step_audio_def default_config_fields double_some_integers)
  have "extractFingerprint eng DEFAULT_FINGERPRINT_CONFIG computeHash now step_audio (Some 100)
          = Inr \<lparr>vector = [x], hash = computeHash [x], mainsFrequency = ?mains,
                 extractionQuality = assessExtractionQuality [x],
                 duration = double (real (audio_length step_audio) / 100),
                 fp_sampleRate = 100, extractedAt = now\<rparr>"
    unfolding extractFingerprint_def Let_def option.case
    using guard by (simp add: step_audio_def default_config_fields vec)
  moreover have "3 < x"
    unfolding x_def by (rule step_frame_magnitude[OF assms _ k]) simp
  ultimately show ?thesis by simp
qed

theorem extract_step_audio_not_normalized_witness:
  "(\<forall>x. \<bar>math_cos sample_engine x - cos x\<bar> \<le> 1 / 1000)
   \<and> (\<forall>x. \<bar>math_sin sample_engine x - sin x\<bar> \<le> 1 / 1000)
   \<and> (\<exists>fp x. extractFingerprint sample_engine DEFAULT_FINGERPRINT_CONFIG no_hash
             ''2024-01-01T00:00:00.000Z'' step_audio (Some 100) = Inr fp
           \<and> vector fp = [x] \<and> 3 < x)"
proof -
  have b: "\<bar>double y - y\<bar> \<le> 1 / 1000" if "\<bar>y\<bar> \<le> 1" for y
  proof -
    have "\<bar>y\<bar> / 2 ^ 53 \<le> 1 / 1000" using that by simp
    with double_error[of y] show ?thesis by linarith
  qed
  have c: "\<forall>x. \<bar>math_cos sample_engine x - cos x\<bar> \<le> 1 / 1000"
  proof
    fix x
    show "\<bar>math_cos sample_engine x - cos x\<bar> \<le> 1 / 1000"
      unfolding sample_engine_def using b[OF abs_cos_le_one[of x]] by simp
  qed
  have s: "\<forall>x. \<bar>math_sin sample_engine x - sin x\<bar> \<le> 1 / 1000"
  proof
    fix x
    show "\<bar>math_sin sample_engine x - sin x\<bar> \<le> 1 / 1000"
      unfolding sample_engine_def using b[OF abs_sin_le_one[of x]] by simp
  qed
  from extract_step_audio_not_normalized[OF c s] c s show ?thesis by (intro conjI)
qed

end
